theory Spec2Isabelle
  imports Complex_Main
begin

section \<open>Python values, exceptions and time\<close>

text \<open>
  The arithmetic of the simulator is read on the reals its floats denote. A value that
  reaches a comparison from outside (the argument of \<open>check_threshold_breach\<close>) is a
  \<open>pyfloat\<close>: a finite value, an infinity or NaN. The pandas marker for a missing cell is
  a value of its own (\<open>NaN\<close>), as are timestamps.
\<close>

text \<open>A naive local \<open>datetime\<close>, counted in microseconds.\<close>

type_synonym datetime = int

definition dt_hour :: "datetime \<Rightarrow> int" where
  "dt_hour t = (t div 3600000000) mod 24"

definition dt_minute :: "datetime \<Rightarrow> int" where
  "dt_minute t = (t div 60000000) mod 60"

definition dt_second :: "datetime \<Rightarrow> int" where
  "dt_second t = (t div 1000000) mod 60"

definition timedelta_minutes :: "int \<Rightarrow> int" where
  "timedelta_minutes m = m * 60000000"

text \<open>The exceptions (all subclasses of \<open>Exception\<close>) that the modelled calls raise.\<close>

datatype exn =
    KeyError string
  | IndexError
  | ValueError
  | TypeError
  | OSError
  | JSONDecodeError

datatype pyval =
    Float real
  | NaN
  | Str string
  | Bool bool
  | Timestamp datetime
  | NoneV

type_synonym pydict = "(string \<times> pyval) list"

text \<open>
  A Python float and its comparisons \<open>x <= y\<close>, \<open>x >= y\<close> and \<open>x < y\<close>: every comparison
  with NaN is false.
\<close>

datatype pyfloat =
    Finite real
  | PosInf
  | NegInf
  | FloatNaN

fun float_le :: "pyfloat \<Rightarrow> pyfloat \<Rightarrow> bool" where
  "float_le (Finite a) (Finite b) = (a \<le> b)"
| "float_le FloatNaN y = False"
| "float_le x FloatNaN = False"
| "float_le NegInf y = True"
| "float_le x PosInf = True"
| "float_le x y = False"

definition float_ge :: "pyfloat \<Rightarrow> pyfloat \<Rightarrow> bool" where
  "float_ge x y = float_le y x"

definition float_lt :: "pyfloat \<Rightarrow> pyfloat \<Rightarrow> bool" where
  "float_lt x y = (float_le x y \<and> \<not> float_le y x)"

text \<open>\<open>d[k] = v\<close>: an existing key keeps its place, a new key goes last.\<close>

fun dict_set :: "pydict \<Rightarrow> string \<Rightarrow> pyval \<Rightarrow> pydict" where
  "dict_set [] k v = [(k, v)]"
| "dict_set ((k', v') # d) k v =
     (if k' = k then (k, v) # d else (k', v') # dict_set d k v)"

text \<open>\<open>xs[k:]\<close> for a list and a possibly negative start.\<close>

definition slice_from :: "'a list \<Rightarrow> int \<Rightarrow> 'a list" where
  "slice_from xs k =
     (if k < 0 then drop (nat (max 0 (int (length xs) + k))) xs else drop (nat k) xs)"

section \<open>The part of pandas the code uses\<close>

text \<open>
  A \<open>DataFrame\<close> is its column labels and its rows, each row holding one cell per
  column. Built from a list of dicts, the columns are the keys in order of first
  appearance and a key a dict lacks is the cell \<open>NaN\<close>; \<open>pd.concat\<close> keeps the columns
  of the first frame, adds the new ones of the second, and fills what is missing with
  \<open>NaN\<close>. The row index is not modelled (\<open>reset_index(drop=True)\<close> renumbers it).
\<close>

record DataFrame =
  columns :: "string list"
  rows :: "pyval list list"

definition add_key :: "string list \<Rightarrow> string \<Rightarrow> string list" where
  "add_key ks k = (if k \<in> set ks then ks else ks @ [k])"

definition keys_of :: "pydict list \<Rightarrow> string list" where
  "keys_of ds = foldl add_key [] (concat (map (map fst) ds))"

definition cell :: "pydict \<Rightarrow> string \<Rightarrow> pyval" where
  "cell d c = (case map_of d c of None \<Rightarrow> NaN | Some v \<Rightarrow> v)"

definition reindex :: "string list \<Rightarrow> pydict \<Rightarrow> pyval list" where
  "reindex cs d = map (cell d) cs"

definition DataFrame_of :: "pydict list \<Rightarrow> DataFrame" where
  "DataFrame_of ds = \<lparr>columns = keys_of ds, rows = map (reindex (keys_of ds)) ds\<rparr>"

definition to_dict_records :: "DataFrame \<Rightarrow> pydict list" where
  "to_dict_records df = map (zip (columns df)) (rows df)"

definition df_len :: "DataFrame \<Rightarrow> nat" where
  "df_len df = length (rows df)"

definition concat_df :: "DataFrame \<Rightarrow> DataFrame \<Rightarrow> DataFrame" where
  "concat_df a b =
     (let cs = foldl add_key (columns a) (columns b)
      in \<lparr>columns = cs, rows = map (reindex cs) (to_dict_records a @ to_dict_records b)\<rparr>)"

definition tail_df :: "nat \<Rightarrow> DataFrame \<Rightarrow> DataFrame" where
  "tail_df n df = df\<lparr>rows := drop (length (rows df) - n) (rows df)\<rparr>"

text \<open>\<open>df[c]\<close> raises \<open>KeyError\<close> for a label that is not a column.\<close>

definition getitem :: "DataFrame \<Rightarrow> string \<Rightarrow> exn + pyval list" where
  "getitem df c =
     (if c \<in> set (columns df) then Inr (map (\<lambda>r. cell (zip (columns df) r) c) (rows df))
      else Inl (KeyError c))"

text \<open>\<open>df[c] = vs\<close>, one value per row (pandas raises \<open>ValueError\<close> on another length).\<close>

definition setitem :: "DataFrame \<Rightarrow> string \<Rightarrow> pyval list \<Rightarrow> exn + DataFrame" where
  "setitem df c vs =
     (if length vs \<noteq> length (rows df) then Inl ValueError
      else Inr \<lparr>columns = add_key (columns df) c,
                rows = map (\<lambda>(r, v). reindex (add_key (columns df) c)
                                      (dict_set (zip (columns df) r) c v))
                           (zip (rows df) vs)\<rparr>)"

text \<open>
  What the library and the environment decide: how \<open>pd.to_datetime\<close> reads a column
  or a single value (it raises on what it cannot parse), how \<open>astype(str)\<close> prints a cell, how
  \<open>isoformat\<close> prints a time, and whether the data file can be opened for writing.
\<close>

record env =
  to_datetime :: "pyval list \<Rightarrow> exn + datetime list"
  to_datetime_scalar :: "pyval \<Rightarrow> exn + datetime"
  astype_str :: "pyval \<Rightarrow> string"
  isoformat :: "datetime \<Rightarrow> string"
  can_write :: bool

section \<open>utils.py\<close>

text \<open>
  The data file: absent, present but failing in \<open>open\<close> or \<open>json.load\<close> with the given
  exception, or holding a JSON list of objects.
\<close>

datatype file_state =
    NoFile
  | Unreadable exn
  | Json "pydict list"

datatype msg =
    Error_loading_data exn
  | Error_saving_data exn
  | Saved_data_points nat
  | Loaded_existing_data_points nat
  | No_existing_data_found

text \<open>\<open>df['timestamp'] = pd.to_datetime(df['timestamp'])\<close>.\<close>

definition parse_timestamps :: "env \<Rightarrow> DataFrame \<Rightarrow> exn + DataFrame" where
  "parse_timestamps E df =
     (case getitem df ''timestamp'' of
        Inl e \<Rightarrow> Inl e
      | Inr col \<Rightarrow>
          (case to_datetime E col of
             Inl e \<Rightarrow> Inl e
           | Inr ts \<Rightarrow> setitem df ''timestamp'' (map Timestamp ts)))"

text \<open>The body of the \<open>try\<close> in \<open>load_data\<close>.\<close>

definition load_data_try :: "env \<Rightarrow> file_state \<Rightarrow> exn + DataFrame option" where
  "load_data_try E f =
     (case f of
        NoFile \<Rightarrow> Inr None
      | Unreadable e \<Rightarrow> Inl e
      | Json data \<Rightarrow>
          (case parse_timestamps E (DataFrame_of data) of
             Inl e \<Rightarrow> Inl e
           | Inr df \<Rightarrow> Inr (Some df)))"

text \<open>
  \<open>load_data\<close>: how the call ends (a value returned, or an exception let through) and
  what it printed. The handler \<open>except Exception\<close> catches whatever the body raises.
\<close>

definition load_data :: "env \<Rightarrow> file_state \<Rightarrow> (exn + DataFrame option) \<times> msg list" where
  "load_data E f =
     (case load_data_try E f of
        Inl e \<Rightarrow> (Inr None, [Error_loading_data e])
      | Inr r \<Rightarrow> (Inr r, []))"

text \<open>\<open>json.dump\<close> raises \<open>TypeError\<close> on a value that JSON cannot hold.\<close>

fun serializable :: "pyval \<Rightarrow> bool" where
  "serializable (Timestamp t) = False"
| "serializable v = True"

text \<open>
  The body of the \<open>try\<close> in \<open>save_data\<close>: the outcome and the file it leaves. The file
  is opened with mode \<open>'w'\<close>, so a \<open>json.dump\<close> that raises leaves a truncated file.
\<close>

definition save_data_try :: "env \<Rightarrow> DataFrame \<Rightarrow> file_state \<Rightarrow> (exn + unit) \<times> file_state" where
  "save_data_try E data f =
     (let data_dict =
            (if ''timestamp'' \<in> set (columns data) then
               (case getitem data ''timestamp'' of
                  Inl e \<Rightarrow> Inl e
                | Inr col \<Rightarrow> setitem data ''timestamp'' (map (\<lambda>v. Str (astype_str E v)) col))
             else Inr data)
      in case data_dict of
           Inl e \<Rightarrow> (Inl e, f)
         | Inr d \<Rightarrow>
             if \<not> can_write E then (Inl OSError, f)
             else if list_all (list_all serializable) (rows d)
               then (Inr (), Json (to_dict_records d))
               else (Inl TypeError, Unreadable JSONDecodeError))"

text \<open>\<open>save_data\<close>: how the call ends, what it printed, and the file it leaves.\<close>

definition save_data :: "env \<Rightarrow> DataFrame \<Rightarrow> file_state \<Rightarrow> (exn + unit) \<times> msg list \<times> file_state" where
  "save_data E data f =
     (case save_data_try E data f of
        (Inl e, f') \<Rightarrow> (Inr (), [Error_saving_data e], f')
      | (Inr u, f') \<Rightarrow> (Inr u, [], f'))"

definition check_threshold_breach :: "pyfloat \<Rightarrow> pyfloat \<Rightarrow> pyfloat \<Rightarrow> string \<times> string" where
  "check_threshold_breach current_value low_threshold high_threshold =
     (if float_ge current_value high_threshold then (''High'', ''red'')
      else if float_ge current_value low_threshold then (''Moderate'', ''orange'')
      else (''Normal'', ''green''))"

section \<open>anomaly_detection.py\<close>

text \<open>
  scikit-learn is a parameter of the model: how a \<open>StandardScaler\<close> is fitted and how it
  transforms a row, how an \<open>IsolationForest\<close> with given parameters is fitted, and what
  its \<open>predict\<close> and \<open>decision_function\<close> return for a row. Both act on a frame row by
  row; \<open>fit_transform\<close> is \<open>fit\<close> followed by \<open>transform\<close> on the same data. The calls
  are taken to return: the features they receive here are numbers.
\<close>

datatype max_samples_arg = Auto | Samples nat

record forest_params =
  n_estimators :: nat
  max_samples :: max_samples_arg
  contamination :: real
  random_state :: nat

record ('s, 'f) sklearn =
  scaler_fit :: "real list list \<Rightarrow> 's"
  scaler_transform :: "'s \<Rightarrow> real list \<Rightarrow> real list"
  forest_fit :: "forest_params \<Rightarrow> real list list \<Rightarrow> 'f"
  predict :: "'f \<Rightarrow> real list \<Rightarrow> int"
  decision_function :: "'f \<Rightarrow> real list \<Rightarrow> real"

text \<open>The model object: its constructor arguments, its fitted state, and the attribute
  \<open>scaler_\<close> (here \<open>scaler_attr\<close>) that \<open>train_isolation_forest_model\<close> sets on it.\<close>

record ('s, 'f) IsolationForest =
  params :: forest_params
  fitted :: 'f
  scaler_attr :: 's

definition train_isolation_forest_model ::
  "('s, 'f) sklearn \<Rightarrow> real list list \<Rightarrow> ('s, 'f) IsolationForest" where
  "train_isolation_forest_model L data =
     (let scaler = scaler_fit L data;
          scaled_data = map (scaler_transform L scaler) data;
          p = \<lparr>n_estimators = 100, max_samples = Auto, contamination = 1 / 100,
               random_state = 42\<rparr>
      in \<lparr>params = p, fitted = forest_fit L p scaled_data, scaler_attr = scaler\<rparr>)"

definition detect_anomalies ::
  "('s, 'f) sklearn \<Rightarrow> ('s, 'f) IsolationForest \<Rightarrow> real list list \<Rightarrow> bool list" where
  "detect_anomalies L model data =
     (let scaled_data = map (scaler_transform L (scaler_attr model)) data;
          predictions = map (predict L (fitted model)) scaled_data
      in map (\<lambda>p. p = - 1) predictions)"

definition get_anomaly_score ::
  "('s, 'f) sklearn \<Rightarrow> ('s, 'f) IsolationForest \<Rightarrow> real list list \<Rightarrow> real list" where
  "get_anomaly_score L model data =
     (let scaled_data = map (scaler_transform L (scaler_attr model)) data;
          scores = map (decision_function L (fitted model)) scaled_data
      in map uminus scores)"

section \<open>api_server.py\<close>

record SensorReading =
  current :: real
  voltage :: real
  power :: "real option"
  device_id :: string
  timestamp :: "string option"

definition MAX_LATEST_READINGS :: nat where
  "MAX_LATEST_READINGS = 60"

text \<open>The globals of the server, the data file and the standard output.\<close>

record ('s, 'f) server =
  latest_readings :: "pydict list"
  anomaly_model :: "('s, 'f) IsolationForest option"
  data_file :: file_state
  stdout :: "msg list"

record response =
  success :: bool
  reading :: pydict
  is_anomaly :: bool
  anomaly_score :: real

text \<open>The dict \<open>new_reading\<close> as \<open>add_reading\<close> first builds it.\<close>

definition new_reading_dict :: "env \<Rightarrow> datetime \<Rightarrow> SensorReading \<Rightarrow> pydict" where
  "new_reading_dict E now r =
     [(''current'', Float (current r)),
      (''voltage'', Float (voltage r)),
      (''power'', Float (case power r of Some p \<Rightarrow> p | None \<Rightarrow> current r * voltage r)),
      (''device_id'', Str (device_id r)),
      (''timestamp'', Str (case timestamp r of
                             Some t \<Rightarrow> if t \<noteq> [] then t else isoformat E now
                           | None \<Rightarrow> isoformat E now))]"

text \<open>The features of the one-row frame that \<open>add_reading\<close> scores.\<close>

definition features_of_reading :: "SensorReading \<Rightarrow> real list list" where
  "features_of_reading r =
     [[current r, voltage r, (case power r of Some p \<Rightarrow> p | None \<Rightarrow> current r * voltage r)]]"

text \<open>Lines 96 to 99: append, then keep the last \<open>MAX_LATEST_READINGS\<close>.\<close>

definition push_latest :: "pydict list \<Rightarrow> pydict \<Rightarrow> pydict list" where
  "push_latest buf r =
     (let buf' = buf @ [r]
      in if length buf' > MAX_LATEST_READINGS
         then slice_from buf' (- int MAX_LATEST_READINGS) else buf')"

text \<open>
  The periodic save of \<open>add_reading\<close>: the printed lines and the file it leaves, or the
  exception it lets through.
\<close>

definition save_branch :: "env \<Rightarrow> pydict \<Rightarrow> file_state \<Rightarrow> (exn + unit) \<times> msg list \<times> file_state" where
  "save_branch E new_reading f =
     (case load_data E f of
        (Inl e, out) \<Rightarrow> (Inl e, out, f)
      | (Inr existing_data, out) \<Rightarrow>
          (let updated_data =
                 (case existing_data of
                    Some ex \<Rightarrow> concat_df ex (DataFrame_of [new_reading])
                  | None \<Rightarrow> DataFrame_of [new_reading])
           in case save_data E updated_data f of
                (Inl e, out', f') \<Rightarrow> (Inl e, out @ out', f')
              | (Inr u, out', f') \<Rightarrow>
                  (Inr (), out @ out' @ [Saved_data_points (df_len updated_data)], f')))"

text \<open>
  Lines 101 to 118: the anomaly flag, the score, and \<open>new_reading\<close> with the two keys
  added when a model exists.
\<close>

definition score_reading ::
  "('s, 'f) sklearn \<Rightarrow> ('s, 'f) IsolationForest option \<Rightarrow> real list list \<Rightarrow> pydict
     \<Rightarrow> bool \<times> real \<times> pydict" where
  "score_reading L am features_df new_reading =
     (case am of
        None \<Rightarrow> (False, 0, new_reading)
      | Some m \<Rightarrow>
          (let a = hd (detect_anomalies L m features_df);
               s = hd (get_anomaly_score L m features_df)
           in (a, s, dict_set (dict_set new_reading ''is_anomaly'' (Bool a))
                              ''anomaly_score'' (Float s))))"

text \<open>
  \<open>add_reading\<close>. The dict appended to \<open>latest_readings\<close> is the object that later
  receives the keys \<open>is_anomaly\<close> and \<open>anomaly_score\<close>, so the buffer holds the dict with
  them; the model, whose values are not shared, appends the finished dict.
\<close>

definition add_reading ::
  "('s, 'f) sklearn \<Rightarrow> env \<Rightarrow> datetime \<Rightarrow> SensorReading \<Rightarrow> ('s, 'f) server
     \<Rightarrow> (exn + response) \<times> ('s, 'f) server" where
  "add_reading L E now r st =
     (case score_reading L (anomaly_model st) (features_of_reading r)
             (new_reading_dict E now r) of
        (flag, score, new_reading) \<Rightarrow>
          (let st1 = st\<lparr>latest_readings := push_latest (latest_readings st) new_reading\<rparr>
           in if dt_minute now mod 5 = 0 \<and> dt_second now < 10 then
                (case save_branch E new_reading (data_file st1) of
                   (Inl e, out, f') \<Rightarrow>
                     (Inl e, st1\<lparr>data_file := f', stdout := stdout st1 @ out\<rparr>)
                 | (Inr u, out, f') \<Rightarrow>
                     (Inr \<lparr>success = True, reading = new_reading, is_anomaly = flag,
                           anomaly_score = score\<rparr>,
                      st1\<lparr>data_file := f', stdout := stdout st1 @ out\<rparr>))
              else
                (Inr \<lparr>success = True, reading = new_reading, is_anomaly = flag,
                      anomaly_score = score\<rparr>, st1)))"

text \<open>\<open>GET /api/readings/latest\<close>: the list under the key \<open>readings\<close>.\<close>

definition get_latest_readings :: "('s, 'f) server \<Rightarrow> int \<Rightarrow> pydict list" where
  "get_latest_readings st limit =
     (let limit' = min limit (int (length (latest_readings st)))
      in slice_from (latest_readings st) (- limit'))"

text \<open>
  \<open>existing_data[['current', 'voltage', 'power']]\<close> as the rows of numbers that
  scikit-learn receives: a missing column raises \<open>KeyError\<close>, and scikit-learn rejects
  a cell that is not a finite number.
\<close>

fun numeric :: "pyval \<Rightarrow> exn + real" where
  "numeric (Float x) = Inr x"
| "numeric (Bool b) = Inr (of_bool b)"
| "numeric (Timestamp t) = Inl TypeError"
| "numeric v = Inl ValueError"

fun sequence :: "(exn + 'a) list \<Rightarrow> exn + 'a list" where
  "sequence [] = Inr []"
| "sequence (Inl e # xs) = Inl e"
| "sequence (Inr x # xs) = (case sequence xs of Inl e \<Rightarrow> Inl e | Inr ys \<Rightarrow> Inr (x # ys))"

definition features_of_frame :: "DataFrame \<Rightarrow> exn + real list list" where
  "features_of_frame df =
     (case sequence (map (\<lambda>c. if c \<in> set (columns df) then Inr c else Inl (KeyError c))
                         [''current'', ''voltage'', ''power'']) of
        Inl e \<Rightarrow> Inl e
      | Inr cs \<Rightarrow> sequence (map (\<lambda>d. sequence (map (\<lambda>c. numeric (cell d c)) cs))
                                (to_dict_records df)))"

text \<open>The start-up part of \<open>lifespan\<close>, run on the initial globals.\<close>

definition lifespan_startup ::
  "('s, 'f) sklearn \<Rightarrow> env \<Rightarrow> ('s, 'f) server \<Rightarrow> (exn + unit) \<times> ('s, 'f) server" where
  "lifespan_startup L E st =
     (case load_data E (data_file st) of
        (Inl e, out) \<Rightarrow> (Inl e, st\<lparr>stdout := stdout st @ out\<rparr>)
      | (Inr existing_data, out) \<Rightarrow>
          (case existing_data of
             None \<Rightarrow> (Inr (), st\<lparr>stdout := stdout st @ out @ [No_existing_data_found]\<rparr>)
           | Some ex \<Rightarrow>
               if df_len ex > 0 then
                 (let st1 = st\<lparr>stdout := stdout st @ out @ [Loaded_existing_data_points (df_len ex)]\<rparr>
                  in case features_of_frame ex of
                       Inl e \<Rightarrow> (Inl e, st1)
                     | Inr features \<Rightarrow>
                         (Inr (), st1\<lparr>anomaly_model := Some (train_isolation_forest_model L features),
                                       latest_readings :=
                                         to_dict_records (tail_df MAX_LATEST_READINGS ex)\<rparr>))
               else (Inr (), st\<lparr>stdout := stdout st @ out @ [No_existing_data_found]\<rparr>)))"

section \<open>data_simulator.py\<close>

definition hour_of_day :: "datetime \<Rightarrow> real" where
  "hour_of_day t = real_of_int (dt_hour t) + real_of_int (dt_minute t) / 60"

text \<open>The daily pattern, the same expressions in both functions of the module.\<close>

definition morning_peak :: "real \<Rightarrow> real" where
  "morning_peak h = 2.5 * exp (- 0.5 * ((h - 8) / 1.5) ^ 2)"

definition evening_peak :: "real \<Rightarrow> real" where
  "evening_peak h = 3 * exp (- 0.5 * ((h - 19) / 2) ^ 2)"

definition base_load :: "real \<Rightarrow> real" where
  "base_load h = 0.8 + 0.2 * sin (2 * pi * h / 24)"

text \<open>A data point: the dict with the keys \<open>current\<close>, \<open>voltage\<close> and \<open>power\<close>.\<close>

record point =
  pt_current :: real
  pt_voltage :: real
  pt_power :: real

record sim_row = point +
  pt_timestamp :: datetime

definition point_dict :: "point \<Rightarrow> pydict" where
  "point_dict p =
     [(''current'', Float (pt_current p)), (''voltage'', Float (pt_voltage p)),
      (''power'', Float (pt_power p))]"

text \<open>
  The random draws of \<open>simulate_energy_data\<close>: the two noise arrays by index, the indices
  chosen for anomalies (drawn from \<open>range(n_points)\<close>), and for the k-th of them its
  kind and its factors (\<open>fluctuation D k j\<close> is the j-th of the five values).
\<close>

record sim_draws =
  noise_current :: "nat \<Rightarrow> real"
  noise_voltage :: "nat \<Rightarrow> real"
  anomaly_indices :: "nat list"
  anomaly_kind :: "nat \<Rightarrow> string"
  spike_factor :: "nat \<Rightarrow> real"
  drop_factor :: "nat \<Rightarrow> real"
  fluctuation :: "nat \<Rightarrow> nat \<Rightarrow> real"

definition base_row :: "datetime \<Rightarrow> sim_draws \<Rightarrow> nat \<Rightarrow> sim_row" where
  "base_row start_time D i =
     (let t = start_time + timedelta_minutes (int i);
          h = hour_of_day t;
          c = max 0.1 (base_load h + morning_peak h + evening_peak h + noise_current D i);
          v = 220 + noise_voltage D i
      in \<lparr>pt_current = c, pt_voltage = v, pt_power = c * v, pt_timestamp = t\<rparr>)"

definition scale_current :: "real \<Rightarrow> sim_row \<Rightarrow> sim_row" where
  "scale_current x r = r\<lparr>pt_current := pt_current r * x\<rparr>"

text \<open>
  One pass of the loop over \<open>anomaly_indices\<close>, for its k-th element \<open>idx\<close>. The indices
  are drawn from \<open>range(n_points)\<close>; one outside the frame is not modelled and leaves the
  rows as they are.
\<close>

definition inject_anomaly :: "nat \<Rightarrow> sim_draws \<Rightarrow> nat \<times> nat \<Rightarrow> sim_row list \<Rightarrow> sim_row list" where
  "inject_anomaly n_points D ki df =
     (case ki of (k, idx) \<Rightarrow>
        if idx < length df then
          (let anomaly_type = anomaly_kind D k;
               df1 =
                 (if anomaly_type = ''spike'' then
                    df[idx := scale_current (spike_factor D k) (df ! idx)]
                  else if anomaly_type = ''drop'' then
                    df[idx := scale_current (drop_factor D k) (df ! idx)]
                  else if anomaly_type = ''fluctuation'' then
                    (if int idx < int n_points - 5 then
                       map (\<lambda>j. if idx \<le> j \<and> j \<le> idx + 4
                                 then scale_current (fluctuation D k (j - idx)) (df ! j)
                                 else df ! j)
                           [0..<length df]
                     else df)
                  else df)
           in df1[idx := (df1 ! idx)\<lparr>pt_power := pt_current (df1 ! idx) * pt_voltage (df1 ! idx)\<rparr>])
        else df)"

definition simulate_rows :: "datetime \<Rightarrow> sim_draws \<Rightarrow> nat \<Rightarrow> bool \<Rightarrow> sim_row list" where
  "simulate_rows now D n_points include_anomalies =
     (let start_time = now - timedelta_minutes (int n_points);
          df = map (base_row start_time D) [0..<n_points]
      in if include_anomalies
         then fold (inject_anomaly n_points D) (enumerate 0 (anomaly_indices D)) df
         else df)"

definition row_cells :: "sim_row \<Rightarrow> pyval list" where
  "row_cells r =
     [Timestamp (pt_timestamp r), Float (pt_current r), Float (pt_voltage r),
      Float (pt_power r)]"

definition simulate_energy_data :: "datetime \<Rightarrow> sim_draws \<Rightarrow> nat \<Rightarrow> bool \<Rightarrow> DataFrame" where
  "simulate_energy_data now D n_points include_anomalies =
     \<lparr>columns = [''timestamp'', ''current'', ''voltage'', ''power''],
      rows = map row_cells (simulate_rows now D n_points include_anomalies)\<rparr>"

text \<open>The random draws of \<open>get_live_data_point\<close>, in the order the code makes them.\<close>

record live_draws =
  normal_current :: real
  normal_voltage :: real
  random_random :: real
  random_choice :: string
  uniform_spike :: real
  uniform_drop :: real

text \<open>
  \<open>max(0.1, last_point['current'] * 0.9 + target_current * 0.1 + noise)\<close> on the cell
  found in the frame. On \<open>NaN\<close> the sum is \<open>NaN\<close> and \<open>max\<close> keeps its first argument.
\<close>

fun blend :: "pyval \<Rightarrow> real \<Rightarrow> real \<Rightarrow> exn + real" where
  "blend (Float x) target noise = Inr (max 0.1 (x * 0.9 + target * 0.1 + noise))"
| "blend (Bool b) target noise = Inr (max 0.1 (of_bool b * 0.9 + target * 0.1 + noise))"
| "blend NaN target noise = Inr 0.1"
| "blend v target noise = Inl TypeError"

definition get_live_data_point ::
  "datetime \<Rightarrow> live_draws \<Rightarrow> pydict \<Rightarrow> bool \<Rightarrow> real \<Rightarrow> exn + point" where
  "get_live_data_point now D last_point include_anomalies anomaly_probability =
     (let h = hour_of_day now;
          target_current = base_load h + morning_peak h + evening_peak h
      in case map_of last_point ''current'' of
           None \<Rightarrow> Inl (KeyError ''current'')
         | Some last_current \<Rightarrow>
             (case blend last_current target_current (normal_current D) of
                Inl e \<Rightarrow> Inl e
              | Inr new_current0 \<Rightarrow>
                  (let new_voltage = 220 + normal_voltage D;
                       new_current =
                         (if include_anomalies \<and> random_random D < anomaly_probability then
                            (if random_choice D = ''spike'' then new_current0 * uniform_spike D
                             else if random_choice D = ''drop'' then new_current0 * uniform_drop D
                             else new_current0)
                          else new_current0)
                   in Inr \<lparr>pt_current = new_current, pt_voltage = new_voltage,
                           pt_power = new_current * new_voltage\<rparr>)))"

section \<open>app.py\<close>

text \<open>The entries of \<open>st.session_state\<close> that \<open>update_data\<close> reads and writes.\<close>

record ('s, 'f) session =
  alert_threshold_low :: real
  alert_threshold_high :: real
  historical_data :: DataFrame
  live_data :: DataFrame
  alert_history :: "pydict list"
  model :: "('s, 'f) IsolationForest"

text \<open>What the three calls of the API client gave during one \<open>update_data\<close>.\<close>

record client =
  check_api_status :: bool
  client_latest_readings :: "exn + pydict list"
  client_historical_data :: "exn + DataFrame"

text \<open>The truth value Python gives a value in \<open>if\<close> and \<open>or\<close>.\<close>

fun truthy :: "pyval \<Rightarrow> bool" where
  "truthy (Float x) = (x \<noteq> 0)"
| "truthy NaN = True"
| "truthy (Str s) = (s \<noteq> [])"
| "truthy (Bool b) = b"
| "truthy (Timestamp t) = True"
| "truthy NoneV = False"

text \<open>
  \<open>check_threshold_breach\<close> called on a value taken from a JSON reading and on the two
  thresholds of the session: a string or \<open>None\<close> cannot be compared with a float.
\<close>

fun check_threshold_breach_py :: "pyval \<Rightarrow> real \<Rightarrow> real \<Rightarrow> exn + string \<times> string" where
  "check_threshold_breach_py (Float x) lo hi =
     Inr (check_threshold_breach (Finite x) (Finite lo) (Finite hi))"
| "check_threshold_breach_py (Bool b) lo hi =
     Inr (check_threshold_breach (Finite (of_bool b)) (Finite lo) (Finite hi))"
| "check_threshold_breach_py NaN lo hi =
     Inr (check_threshold_breach FloatNaN (Finite lo) (Finite hi))"
| "check_threshold_breach_py v lo hi = Inl TypeError"

definition alert_type_of :: "bool \<Rightarrow> string" where
  "alert_type_of flag = (if flag then ''Anomaly Detected'' else ''Threshold Breach'')"

definition getkey :: "pydict \<Rightarrow> string \<Rightarrow> exn + pyval" where
  "getkey d k = (case map_of d k of None \<Rightarrow> Inl (KeyError k) | Some v \<Rightarrow> Inr v)"

definition df_empty :: "DataFrame \<Rightarrow> bool" where
  "df_empty df = (columns df = [] \<or> rows df = [])"

text \<open>
  Lines 112 to 133: the alert decision on the latest reading of the API. The values of
  the new entry are evaluated in the order of the dict display, before the append.
\<close>

definition api_alert :: "env \<Rightarrow> pydict \<Rightarrow> real \<Rightarrow> real \<Rightarrow> pydict list \<Rightarrow> exn + pydict list" where
  "api_alert E new_point lo hi history =
     (let flag = (case map_of new_point ''is_anomaly'' of None \<Rightarrow> Bool False | Some v \<Rightarrow> v)
      in case getkey new_point ''current'' of
           Inl e \<Rightarrow> Inl e
         | Inr cur \<Rightarrow>
             (case check_threshold_breach_py cur lo hi of
                Inl e \<Rightarrow> Inl e
              | Inr (status, color) \<Rightarrow>
                  if status = ''High'' \<or> truthy flag then
                    (case getkey new_point ''timestamp'' of
                       Inl e \<Rightarrow> Inl e
                     | Inr ts \<Rightarrow>
                         (case to_datetime_scalar E ts of
                            Inl e \<Rightarrow> Inl e
                          | Inr t \<Rightarrow>
                              (case getkey new_point ''power'' of
                                 Inl e \<Rightarrow> Inl e
                               | Inr pw \<Rightarrow>
                                   Inr (history @
                                     [[(''timestamp'', Timestamp t), (''current'', cur),
                                       (''power'', pw),
                                       (''type'', Str (alert_type_of (truthy flag))),
                                       (''status'', Str status)]]))))
                  else Inr history))"

text \<open>Lines 159 to 183: the alert decision on a simulated point.\<close>

definition fallback_alert ::
  "('s, 'f) sklearn \<Rightarrow> ('s, 'f) IsolationForest \<Rightarrow> point \<Rightarrow> datetime \<Rightarrow> real \<Rightarrow> real
     \<Rightarrow> pydict list \<Rightarrow> pydict list" where
  "fallback_alert L m new_point ts lo hi history =
     (let features_df = [[pt_current new_point, pt_voltage new_point, pt_power new_point]];
          flag = hd (detect_anomalies L m features_df);
          (status, color) =
            check_threshold_breach (Finite (pt_current new_point)) (Finite lo) (Finite hi)
      in if status = ''High'' \<or> flag then
           history @
             [[(''timestamp'', Timestamp ts), (''current'', Float (pt_current new_point)),
               (''power'', Float (pt_power new_point)),
               (''type'', Str (alert_type_of flag)),
               (''status'', Str status)]]
         else history)"

text \<open>
  The fallback of \<open>update_data\<close> (lines 135 to 185); \<open>now1\<close>, \<open>now2\<close> and \<open>now3\<close> are its
  three readings of the clock.
\<close>

definition update_fallback ::
  "('s, 'f) sklearn \<Rightarrow> datetime \<Rightarrow> datetime \<Rightarrow> datetime \<Rightarrow> live_draws \<Rightarrow> ('s, 'f) session
     \<Rightarrow> (exn + bool) \<times> ('s, 'f) session" where
  "update_fallback L now1 now2 now3 D S =
     (if rows (live_data S) = [] then (Inl IndexError, S)
      else
        case get_live_data_point now1 D (last (to_dict_records (live_data S))) True 0.02 of
          Inl e \<Rightarrow> (Inl e, S)
        | Inr new_point \<Rightarrow>
            (let new_row = DataFrame_of [dict_set (point_dict new_point) ''timestamp'' (Timestamp now2)];
                 S1 = S\<lparr>live_data :=
                         concat_df ((live_data S)\<lparr>rows := drop 1 (rows (live_data S))\<rparr>) new_row\<rparr>;
                 S2 = (if dt_second now3 < 1
                       then S1\<lparr>historical_data := concat_df (historical_data S1) new_row\<rparr>
                       else S1)
             in (Inr False,
                 S2\<lparr>alert_history :=
                      fallback_alert L (model S2) new_point now2 (alert_threshold_low S2)
                        (alert_threshold_high S2) (alert_history S2)\<rparr>)))"

definition update_data ::
  "('s, 'f) sklearn \<Rightarrow> env \<Rightarrow> client \<Rightarrow> datetime \<Rightarrow> datetime \<Rightarrow> datetime \<Rightarrow> live_draws
     \<Rightarrow> ('s, 'f) session \<Rightarrow> (exn + bool) \<times> ('s, 'f) session" where
  "update_data L E A now1 now2 now3 D S =
     (if check_api_status A then
        (case client_latest_readings A of
           Inl e \<Rightarrow> (Inl e, S)
         | Inr latest \<Rightarrow>
             if latest \<noteq> [] then
               (case parse_timestamps E (DataFrame_of latest) of
                  Inl e \<Rightarrow> (Inl e, S)
                | Inr df_readings \<Rightarrow>
                    (let S1 = S\<lparr>live_data := df_readings\<rparr>
                     in case client_historical_data A of
                          Inl e \<Rightarrow> (Inl e, S1)
                        | Inr api_historical \<Rightarrow>
                            (let S2 = (if \<not> df_empty api_historical
                                       then S1\<lparr>historical_data := api_historical\<rparr> else S1)
                             in case api_alert E (last latest) (alert_threshold_low S2)
                                       (alert_threshold_high S2) (alert_history S2) of
                                  Inl e \<Rightarrow> (Inl e, S2)
                                | Inr h \<Rightarrow> (Inr True, S2\<lparr>alert_history := h\<rparr>))))
             else update_fallback L now1 now2 now3 D S)
      else update_fallback L now1 now2 now3 D S)"

section \<open>Helper facts\<close>

lemma map_of_dict_set:
  "map_of (dict_set d k v) k' = (if k' = k then Some v else map_of d k')"
  by (induction d k v rule: dict_set.induct) auto

lemma push_latest_eq:
  "push_latest buf r = drop (Suc (length buf) - MAX_LATEST_READINGS) (buf @ [r])"
proof -
  have "nat (int (length buf) - 59) = length buf - 59" by arith
  then show ?thesis
    by (simp add: push_latest_def Let_def slice_from_def MAX_LATEST_READINGS_def)
qed

lemma push_latest_length:
  "length (push_latest buf r) = min MAX_LATEST_READINGS (Suc (length buf))"
  by (simp add: push_latest_eq MAX_LATEST_READINGS_def)

lemma push_latest_last: "last (push_latest buf r) = r"
  by (simp add: push_latest_eq MAX_LATEST_READINGS_def)

lemma add_reading_latest:
  "latest_readings (snd (add_reading L E now r st)) =
     push_latest (latest_readings st)
       (snd (snd (score_reading L (anomaly_model st) (features_of_reading r)
                    (new_reading_dict E now r))))"
  by (simp add: add_reading_def Let_def split: prod.splits sum.splits)

lemma score_reading_keeps:
  assumes "k \<noteq> ''is_anomaly''" and "k \<noteq> ''anomaly_score''"
  shows "map_of (snd (snd (score_reading L am fs d))) k = map_of d k"
  using assms by (cases am) (simp_all add: score_reading_def Let_def map_of_dict_set)

lemma get_latest_readings_positive:
  assumes "0 < limit"
  shows "get_latest_readings st limit =
           drop (length (latest_readings st) - nat limit) (latest_readings st)
         \<and> length (get_latest_readings st limit) = min (nat limit) (length (latest_readings st))"
proof -
  let ?n = "length (latest_readings st)"
  show ?thesis
  proof (cases "?n = 0")
    case True
    then show ?thesis by (simp add: get_latest_readings_def slice_from_def Let_def)
  next
    case False
    have "nat (max 0 (int ?n - min limit (int ?n))) = ?n - nat limit"
      using assms by (auto simp: min_def max_def)
    with False assms show ?thesis
      by (auto simp: get_latest_readings_def slice_from_def Let_def min_def)
  qed
qed

lemma blend_ge: "blend v target noise = Inr c \<Longrightarrow> 1 / 10 \<le> c"
  by (cases v) auto

lemma base_row_ok:
  "1 / 10 \<le> pt_current (base_row s D i)
   \<and> pt_power (base_row s D i) = pt_current (base_row s D i) * pt_voltage (base_row s D i)"
  by (simp add: base_row_def Let_def)

lemma simulate_rows_plain:
  "simulate_rows now D n False = map (base_row (now - timedelta_minutes (int n)) D) [0..<n]"
  by (simp add: simulate_rows_def Let_def)

lemma live_point_ok:
  assumes "get_live_data_point now D last_point inc prob = Inr p"
    and "0 < uniform_spike D" and "0 < uniform_drop D"
  shows "0 < pt_current p \<and> pt_power p = pt_current p * pt_voltage p"
proof -
  from assms(1) obtain v c0 where v: "map_of last_point ''current'' = Some v"
    and c0: "blend v (base_load (hour_of_day now) + morning_peak (hour_of_day now)
                       + evening_peak (hour_of_day now)) (normal_current D) = Inr c0"
    by (auto simp: get_live_data_point_def Let_def split: option.splits sum.splits)
  from blend_ge[OF c0] have pos: "0 < c0" by simp
  from assms(1) v c0 have
    "p = \<lparr>pt_current =
            (if inc \<and> random_random D < prob then
               (if random_choice D = ''spike'' then c0 * uniform_spike D
                else if random_choice D = ''drop'' then c0 * uniform_drop D else c0)
             else c0),
          pt_voltage = 220 + normal_voltage D,
          pt_power =
            (if inc \<and> random_random D < prob then
               (if random_choice D = ''spike'' then c0 * uniform_spike D
                else if random_choice D = ''drop'' then c0 * uniform_drop D else c0)
             else c0) * (220 + normal_voltage D)\<rparr>"
    by (simp add: get_live_data_point_def Let_def)
  with pos assms(2,3) show ?thesis by simp
qed

lemma live_point_returns:
  "map_of last_point ''current'' = Some (Float x)
   \<Longrightarrow> \<exists>p. get_live_data_point now D last_point inc prob = Inr p"
  by (simp add: get_live_data_point_def Let_def)

lemma sim_record:
  "d \<in> set (to_dict_records (simulate_energy_data now D n inc))
   \<Longrightarrow> \<exists>r \<in> set (simulate_rows now D n inc).
         map_of d ''current'' = Some (Float (pt_current r))
       \<and> map_of d ''voltage'' = Some (Float (pt_voltage r))
       \<and> map_of d ''power'' = Some (Float (pt_power r))
       \<and> map_of d ''timestamp'' = Some (Timestamp (pt_timestamp r))"
  by (auto simp: to_dict_records_def simulate_energy_data_def row_cells_def)

lemma api_alert_cases:
  assumes a: "api_alert E np lo hi h = Inr h'"
  shows "\<exists>cur status color.
           getkey np ''current'' = Inr cur
         \<and> check_threshold_breach_py cur lo hi = Inr (status, color)
         \<and> (if status = ''High''
                 \<or> truthy (case map_of np ''is_anomaly'' of None \<Rightarrow> Bool False | Some v \<Rightarrow> v)
             then \<exists>e. h' = h @ [e]
                    \<and> map_of e ''type'' =
                        Some (Str (alert_type_of
                          (truthy (case map_of np ''is_anomaly'' of None \<Rightarrow> Bool False
                                   | Some v \<Rightarrow> v))))
                    \<and> map_of e ''status'' = Some (Str status)
             else h' = h)"
proof -
  define flag where "flag = truthy (case map_of np ''is_anomaly'' of None \<Rightarrow> Bool False | Some v \<Rightarrow> v)"
  from a obtain cur where cur: "getkey np ''current'' = Inr cur"
    unfolding api_alert_def Let_def by (cases "getkey np ''current''") simp_all
  from a cur obtain status color where st: "check_threshold_breach_py cur lo hi = Inr (status, color)"
    unfolding api_alert_def Let_def by (cases "check_threshold_breach_py cur lo hi") auto
  show ?thesis
  proof (cases "status = ''High'' \<or> flag")
    case False
    with a cur st have "h' = h"
      unfolding api_alert_def Let_def flag_def by simp
    with False cur st show ?thesis unfolding flag_def by auto
  next
    case True
    with a cur st obtain ts where ts: "getkey np ''timestamp'' = Inr ts"
      unfolding api_alert_def Let_def flag_def by (cases "getkey np ''timestamp''") auto
    with True a cur st obtain t where t: "to_datetime_scalar E ts = Inr t"
      unfolding api_alert_def Let_def flag_def by (cases "to_datetime_scalar E ts") auto
    with True a cur st ts obtain pw where pw: "getkey np ''power'' = Inr pw"
      unfolding api_alert_def Let_def flag_def by (cases "getkey np ''power''") auto
    from True a cur st ts t pw have
      "h' = h @ [[(''timestamp'', Timestamp t), (''current'', cur), (''power'', pw),
                 (''type'', Str (alert_type_of flag)), (''status'', Str status)]]"
      unfolding api_alert_def Let_def flag_def by auto
    then have "\<exists>e. h' = h @ [e] \<and> map_of e ''type'' = Some (Str (alert_type_of flag))
                  \<and> map_of e ''status'' = Some (Str status)"
      by simp
    with True cur st show ?thesis unfolding flag_def by auto
  qed
qed

lemma fallback_alert_cases:
  "\<exists>status color.
      check_threshold_breach (Finite (pt_current p)) (Finite lo) (Finite hi) = (status, color)
    \<and> (if status = ''High''
            \<or> hd (detect_anomalies L m [[pt_current p, pt_voltage p, pt_power p]])
        then \<exists>e. fallback_alert L m p ts lo hi h = h @ [e]
               \<and> map_of e ''type'' =
                   Some (Str (alert_type_of
                     (hd (detect_anomalies L m [[pt_current p, pt_voltage p, pt_power p]]))))
               \<and> map_of e ''status'' = Some (Str status)
        else fallback_alert L m p ts lo hi h = h)"
proof -
  obtain status color where
    st: "check_threshold_breach (Finite (pt_current p)) (Finite lo) (Finite hi) = (status, color)"
    by (cases "check_threshold_breach (Finite (pt_current p)) (Finite lo) (Finite hi)") blast
  define flag where "flag = hd (detect_anomalies L m [[pt_current p, pt_voltage p, pt_power p]])"
  show ?thesis
  proof (cases "status = ''High'' \<or> flag")
    case False
    with st have "fallback_alert L m p ts lo hi h = h"
      unfolding fallback_alert_def Let_def flag_def by simp
    with False st show ?thesis unfolding flag_def by auto
  next
    case True
    with st have "fallback_alert L m p ts lo hi h =
        h @ [[(''timestamp'', Timestamp ts), (''current'', Float (pt_current p)),
              (''power'', Float (pt_power p)), (''type'', Str (alert_type_of flag)),
              (''status'', Str status)]]"
      unfolding fallback_alert_def Let_def flag_def by simp
    then have "\<exists>e. fallback_alert L m p ts lo hi h = h @ [e]
        \<and> map_of e ''type'' = Some (Str (alert_type_of flag))
        \<and> map_of e ''status'' = Some (Str status)"
      by simp
    with True st show ?thesis unfolding flag_def by auto
  qed
qed

lemma update_fallback_returns:
  assumes a: "update_fallback L now1 now2 now3 D S = (Inr b, S')"
  shows "\<not> b \<and> (\<exists>p. get_live_data_point now1 D (last (to_dict_records (live_data S))) True 0.02 = Inr p
           \<and> alert_history S' =
               fallback_alert L (model S) p now2 (alert_threshold_low S) (alert_threshold_high S)
                 (alert_history S))"
proof -
  from a have ne: "rows (live_data S) \<noteq> []"
    unfolding update_fallback_def by (auto split: if_splits)
  with a obtain p where p: "get_live_data_point now1 D (last (to_dict_records (live_data S))) True 0.02 = Inr p"
    unfolding update_fallback_def
    by (cases "get_live_data_point now1 D (last (to_dict_records (live_data S))) True 0.02") auto
  from a ne p show ?thesis
    unfolding update_fallback_def Let_def by (auto split: if_splits)
qed

lemma update_data_returns:
  assumes a: "update_data L E A now1 now2 now3 D S = (Inr b, S')"
  shows "(b \<and> (\<exists>latest. check_api_status A \<and> client_latest_readings A = Inr latest \<and> latest \<noteq> []
               \<and> api_alert E (last latest) (alert_threshold_low S) (alert_threshold_high S)
                    (alert_history S) = Inr (alert_history S')))
       \<or> (\<not> b \<and> update_fallback L now1 now2 now3 D S = (Inr b, S'))"
proof (cases "check_api_status A \<and> (\<exists>latest. client_latest_readings A = Inr latest \<and> latest \<noteq> [])")
  case False
  with a have f: "update_fallback L now1 now2 now3 D S = (Inr b, S')"
    unfolding update_data_def by (auto split: if_splits sum.splits)
  from update_fallback_returns[OF f] f show ?thesis by simp
next
  case True
  then obtain latest where l: "check_api_status A" "client_latest_readings A = Inr latest" "latest \<noteq> []"
    by blast
  with a obtain df where df: "parse_timestamps E (DataFrame_of latest) = Inr df"
    unfolding update_data_def by (cases "parse_timestamps E (DataFrame_of latest)") auto
  with a l obtain hist where hist: "client_historical_data A = Inr hist"
    unfolding update_data_def Let_def by (cases "client_historical_data A") auto
  define S2 where "S2 = (if \<not> df_empty hist then S\<lparr>live_data := df, historical_data := hist\<rparr>
                         else S\<lparr>live_data := df\<rparr>)"
  have S2: "alert_threshold_low S2 = alert_threshold_low S"
    "alert_threshold_high S2 = alert_threshold_high S" "alert_history S2 = alert_history S"
    by (simp_all add: S2_def)
  from a l df hist have a': "(case api_alert E (last latest) (alert_threshold_low S2)
                                   (alert_threshold_high S2) (alert_history S2) of
               Inl e \<Rightarrow> (Inl e, S2) | Inr h \<Rightarrow> (Inr True, S2\<lparr>alert_history := h\<rparr>)) = (Inr b, S')"
    unfolding update_data_def Let_def S2_def by (simp split: if_splits)
  then obtain h where h: "api_alert E (last latest) (alert_threshold_low S2)
                                   (alert_threshold_high S2) (alert_history S2) = Inr h"
    by (cases "api_alert E (last latest) (alert_threshold_low S2)
                                   (alert_threshold_high S2) (alert_history S2)") auto
  with a' have "b" "S' = S2\<lparr>alert_history := h\<rparr>" by simp_all
  with h S2 l show ?thesis by auto
qed

lemma update_fallback_total:
  assumes ne: "rows (live_data S) \<noteq> []"
    and cur: "map_of (last (to_dict_records (live_data S))) ''current'' = Some (Float x)"
  shows "\<exists>S'. update_fallback L now1 now2 now3 D S = (Inr False, S')"
proof -
  from live_point_returns[OF cur] obtain p where
    p: "get_live_data_point now1 D (last (to_dict_records (live_data S))) True 0.02 = Inr p"
    by blast
  from ne p show ?thesis
    unfolding update_fallback_def Let_def by simp
qed

lemma api_alert_total:
  assumes cur: "map_of np ''current'' = Some (Float x)"
    and ts: "map_of np ''timestamp'' = Some ts"
    and t: "to_datetime_scalar E ts = Inr t"
    and pw: "map_of np ''power'' = Some pw"
  shows "\<exists>h'. api_alert E np lo hi h = Inr h'"
proof -
  obtain status color where
    st: "check_threshold_breach (Finite x) (Finite lo) (Finite hi) = (status, color)"
    by (cases "check_threshold_breach (Finite x) (Finite lo) (Finite hi)") blast
  show ?thesis
    unfolding api_alert_def Let_def getkey_def using cur ts t pw st by simp
qed

lemma update_data_api_total:
  assumes api: "check_api_status A"
    and l: "client_latest_readings A = Inr latest" "latest \<noteq> []"
    and df: "parse_timestamps E (DataFrame_of latest) = Inr df"
    and hist: "client_historical_data A = Inr hist"
    and al: "api_alert E (last latest) (alert_threshold_low S) (alert_threshold_high S)
               (alert_history S) = Inr h'"
  shows "\<exists>S'. update_data L E A now1 now2 now3 D S = (Inr True, S')"
  unfolding update_data_def Let_def using api l df hist al by simp




lemma getitem_missing: "c \<notin> set (columns df) \<Longrightarrow> getitem df c = Inl (KeyError c)"
  by (simp add: getitem_def)




text \<open>
  A save after a successful load, in the model of pandas used here: the stored record
  comes back with its timestamp printed anew from the parsed value and with \<open>NaN\<close> under
  the keys only the new reading has.
\<close>

lemma save_branch_rewrites_records:
  "save_branch
     \<lparr>to_datetime = (\<lambda>col. Inr (map (\<lambda>v. 0) col)), to_datetime_scalar = (\<lambda>v. Inr 0),
       astype_str = (\<lambda>v. case v of Str s \<Rightarrow> s | Timestamp t \<Rightarrow> ''2025-01-01 00:00:00''
                          | _ \<Rightarrow> []),
       isoformat = (\<lambda>t. ''2025-01-01T00:05:00''), can_write = True\<rparr>
     [(''current'', Float 2), (''timestamp'', Str ''2025-01-01T00:05:00''),
      (''is_anomaly'', Bool False)]
     (Json [[(''current'', Float 1), (''timestamp'', Str ''2025-01-01T00:00:00'')]])
   = (Inr (), [Saved_data_points 2],
      Json [[(''current'', Float 1), (''timestamp'', Str ''2025-01-01 00:00:00''),
             (''is_anomaly'', NaN)],
            [(''current'', Float 2), (''timestamp'', Str ''2025-01-01T00:05:00''),
             (''is_anomaly'', Bool False)]])"
proof -
  let ?E = "\<lparr>to_datetime = (\<lambda>col. Inr (map (\<lambda>v. 0) col)), to_datetime_scalar = (\<lambda>v. Inr 0),
       astype_str = (\<lambda>v. case v of Str s \<Rightarrow> s | Timestamp t \<Rightarrow> ''2025-01-01 00:00:00''
                          | _ \<Rightarrow> []),
       isoformat = (\<lambda>t. ''2025-01-01T00:05:00''), can_write = True\<rparr>"
  let ?old = "[(''current'', Float 1), (''timestamp'', Str ''2025-01-01T00:00:00'')]"
  let ?new = "[(''current'', Float 2), (''timestamp'', Str ''2025-01-01T00:05:00''),
      (''is_anomaly'', Bool False)]"
  let ?ex = "\<lparr>columns = [''current'', ''timestamp''], rows = [[Float 1, Timestamp 0]]\<rparr>"
  let ?up = "\<lparr>columns = [''current'', ''timestamp'', ''is_anomaly''],
              rows = [[Float 1, Timestamp 0, NaN],
                      [Float 2, Str ''2025-01-01T00:05:00'', Bool False]]\<rparr>"
  have ld: "load_data ?E (Json [?old]) = (Inr (Some ?ex), [])"
    by (simp add: load_data_def load_data_try_def parse_timestamps_def DataFrame_of_def
        keys_of_def add_key_def getitem_def setitem_def reindex_def cell_def)
  have nw: "DataFrame_of [?new] = \<lparr>columns = [''current'', ''timestamp'', ''is_anomaly''],
              rows = [[Float 2, Str ''2025-01-01T00:05:00'', Bool False]]\<rparr>"
    by (simp add: DataFrame_of_def keys_of_def add_key_def reindex_def cell_def)
  have cc: "concat_df ?ex (DataFrame_of [?new]) = ?up"
    by (simp add: nw concat_df_def add_key_def to_dict_records_def reindex_def cell_def)
  have sv: "save_data ?E ?up (Json [?old]) = (Inr (), [],
      Json [[(''current'', Float 1), (''timestamp'', Str ''2025-01-01 00:00:00''),
             (''is_anomaly'', NaN)],
            [(''current'', Float 2), (''timestamp'', Str ''2025-01-01T00:05:00''),
             (''is_anomaly'', Bool False)]])"
    by (simp add: save_data_def save_data_try_def getitem_def setitem_def add_key_def
        reindex_def cell_def to_dict_records_def)
  show ?thesis
    by (simp add: save_branch_def ld cc sv) (simp add: df_len_def)
qed

section \<open>The threshold status (utils.py)\<close>

text \<open>
  C5. For thresholds with \<open>low_threshold <= high_threshold\<close>, \<open>check_threshold_breach\<close>
  returns one of three pairs: \<open>("High", "red")\<close> exactly when the value is at least the
  high threshold, \<open>("Moderate", "orange")\<close> exactly when it is at least the low and below
  the high threshold, and \<open>("Normal", "green")\<close> exactly when it is below the low
  threshold or is NaN. The last case is where the code leaves the three cases read as
  comparisons: NaN is not below the low threshold, and the \<open>else\<close> branch still returns
  \<open>("Normal", "green")\<close> for it. Infinite values follow the comparisons.
\<close>

theorem check_threshold_breach_cases:
  assumes "float_le low_threshold high_threshold"
  shows "(check_threshold_breach v low_threshold high_threshold = (''High'', ''red'')
            \<longleftrightarrow> float_ge v high_threshold)
       \<and> (check_threshold_breach v low_threshold high_threshold = (''Moderate'', ''orange'')
            \<longleftrightarrow> float_ge v low_threshold \<and> float_lt v high_threshold)
       \<and> (check_threshold_breach v low_threshold high_threshold = (''Normal'', ''green'')
            \<longleftrightarrow> float_lt v low_threshold \<or> v = FloatNaN)
       \<and> check_threshold_breach v low_threshold high_threshold
            \<in> {(''High'', ''red''), (''Moderate'', ''orange''), (''Normal'', ''green'')}"
proof -
  have hi: "float_ge v high_threshold \<Longrightarrow> float_ge v low_threshold"
    using assms unfolding float_ge_def
    by (cases v; cases low_threshold; cases high_threshold) simp_all
  have mo: "float_ge v low_threshold \<Longrightarrow> \<not> float_ge v high_threshold \<longleftrightarrow> float_lt v high_threshold"
    using assms unfolding float_ge_def float_lt_def
    by (cases v; cases low_threshold; cases high_threshold) auto
  have no: "\<not> float_ge v low_threshold \<longleftrightarrow> float_lt v low_threshold \<or> v = FloatNaN"
    using assms unfolding float_ge_def float_lt_def
    by (cases v; cases low_threshold; cases high_threshold) auto
  show ?thesis
    using hi mo no by (auto simp: check_threshold_breach_def)
qed

theorem check_threshold_breach_cases_witness:
  "float_le (Finite 2) (Finite 4)
     \<and> check_threshold_breach (Finite 3) (Finite 2) (Finite 4) = (''Moderate'', ''orange'')
     \<and> check_threshold_breach (Finite 4) (Finite 2) (Finite 4) = (''High'', ''red'')
     \<and> check_threshold_breach PosInf (Finite 2) (Finite 4) = (''High'', ''red'')
     \<and> check_threshold_breach (Finite 1) (Finite 2) (Finite 4) = (''Normal'', ''green'')
     \<and> check_threshold_breach NegInf (Finite 2) (Finite 4) = (''Normal'', ''green'')
     \<and> check_threshold_breach FloatNaN (Finite 2) (Finite 4) = (''Normal'', ''green'')"
  using check_threshold_breach_cases[of "Finite 2" "Finite 4" "Finite 3"]
    check_threshold_breach_cases[of "Finite 2" "Finite 4" "Finite 4"]
    check_threshold_breach_cases[of "Finite 2" "Finite 4" PosInf]
    check_threshold_breach_cases[of "Finite 2" "Finite 4" "Finite 1"]
    check_threshold_breach_cases[of "Finite 2" "Finite 4" NegInf]
    check_threshold_breach_cases[of "Finite 2" "Finite 4" FloatNaN]
  by (simp add: float_ge_def float_lt_def)

text \<open>
  Read with \<open>("Normal", "green")\<close> exactly when the value is below the low threshold, the
  three cases fail at NaN: with thresholds 2 and 4 the function returns
  \<open>("Normal", "green")\<close> for NaN, which is not below 2.
\<close>

theorem check_threshold_breach_nan_normal:
  "\<not> (\<forall>v low_threshold high_threshold.
         float_le low_threshold high_threshold \<longrightarrow>
           (check_threshold_breach v low_threshold high_threshold = (''Normal'', ''green'')
              \<longleftrightarrow> float_lt v low_threshold))"
proof
  assume "\<forall>v low_threshold high_threshold.
         float_le low_threshold high_threshold \<longrightarrow>
           (check_threshold_breach v low_threshold high_threshold = (''Normal'', ''green'')
              \<longleftrightarrow> float_lt v low_threshold)"
  then have "float_le (Finite 2) (Finite 4) \<longrightarrow>
      (check_threshold_breach FloatNaN (Finite 2) (Finite 4) = (''Normal'', ''green'')
         \<longleftrightarrow> float_lt FloatNaN (Finite 2))"
    by blast
  then show False
    by (simp add: check_threshold_breach_def float_ge_def float_lt_def)
qed

section \<open>The rolling buffer (api_server.py)\<close>

text \<open>
  C6. After a call of \<open>add_reading\<close>, whatever the state before and however the call
  ends, \<open>latest_readings\<close> holds at most \<open>MAX_LATEST_READINGS\<close> (60) readings: the old
  buffer followed by the new reading, cut from the front to the last 60. The new reading
  is last, and it carries the current, voltage and device of the request.
\<close>

theorem add_reading_rolling_buffer:
  fixes L :: "('s, 'f) sklearn" and st :: "('s, 'f) server"
    and E :: env and now :: datetime and r :: SensorReading
  defines "stored \<equiv> snd (snd (score_reading L (anomaly_model st) (features_of_reading r)
                                 (new_reading_dict E now r)))"
  defines "buf' \<equiv> latest_readings (snd (add_reading L E now r st))"
  shows "length buf' \<le> MAX_LATEST_READINGS
       \<and> length buf' = min MAX_LATEST_READINGS (Suc (length (latest_readings st)))
       \<and> buf' = drop (Suc (length (latest_readings st)) - MAX_LATEST_READINGS)
                      (latest_readings st @ [stored])
       \<and> last buf' = stored
       \<and> map_of stored ''current'' = Some (Float (current r))
       \<and> map_of stored ''voltage'' = Some (Float (voltage r))
       \<and> map_of stored ''device_id'' = Some (Str (device_id r))"
proof -
  have b: "buf' = push_latest (latest_readings st) stored"
    unfolding buf'_def stored_def by (rule add_reading_latest)
  have k: "map_of stored k = map_of (new_reading_dict E now r) k"
    if "k \<noteq> ''is_anomaly''" "k \<noteq> ''anomaly_score''" for k
    unfolding stored_def using that by (rule score_reading_keeps)
  show ?thesis
    by (simp add: b push_latest_length push_latest_last k new_reading_dict_def)
      (simp add: push_latest_eq)
qed

text \<open>
  C10. \<open>GET /api/readings/latest\<close> is claimed to return, for every non-negative
  \<open>limit\<close>, the \<open>min(limit, n)\<close> most recent readings. With \<open>limit = 0\<close> the slice
  \<open>latest_readings[-0:]\<close> starts at index 0: on a buffer of two readings the code returns
  both, where the claim says none. (For \<open>limit > 0\<close> the claim holds, see
  \<open>get_latest_readings_positive\<close>.)
\<close>

theorem get_latest_readings_limit_zero:
  "get_latest_readings
     \<lparr>latest_readings = [[(''current'', Float 1)], [(''current'', Float 2)]],
      anomaly_model = None, data_file = NoFile, stdout = []\<rparr> 0
   = [[(''current'', Float 1)], [(''current'', Float 2)]]"
  by (simp add: get_latest_readings_def slice_from_def)

section \<open>The anomaly model (anomaly_detection.py)\<close>

text \<open>
  C2. \<open>train_isolation_forest_model\<close> fits a scaler on the training features, builds the
  forest with \<open>n_estimators=100\<close>, \<open>max_samples='auto'\<close>, \<open>contamination=0.01\<close> and
  \<open>random_state=42\<close>, fits it on the features transformed by that scaler, and stores the
  scaler on the model; \<open>detect_anomalies\<close> and \<open>get_anomaly_score\<close> transform their
  input with the scaler stored on the model they are given (for the trained model: the
  scaler fitted on the training data) and fit none.
\<close>

theorem train_stores_fitted_scaler:
  fixes L :: "('s, 'f) sklearn" and data :: "real list list"
  defines "m \<equiv> train_isolation_forest_model L data"
  shows "params m = \<lparr>n_estimators = 100, max_samples = Auto, contamination = 1 / 100,
                      random_state = 42\<rparr>
       \<and> scaler_attr m = scaler_fit L data
       \<and> fitted m = forest_fit L (params m) (map (scaler_transform L (scaler_fit L data)) data)
       \<and> detect_anomalies L m X =
           map (\<lambda>x. predict L (fitted m) (scaler_transform L (scaler_fit L data) x) = - 1) X
       \<and> get_anomaly_score L m X =
           map (\<lambda>x. - decision_function L (fitted m) (scaler_transform L (scaler_fit L data) x)) X
       \<and> detect_anomalies L m' X =
           map (\<lambda>x. predict L (fitted m') (scaler_transform L (scaler_attr m') x) = - 1) X
       \<and> get_anomaly_score L m' X =
           map (\<lambda>x. - decision_function L (fitted m') (scaler_transform L (scaler_attr m') x)) X"
  by (simp add: m_def train_isolation_forest_model_def detect_anomalies_def
      get_anomaly_score_def Let_def comp_def)

text \<open>
  C3. \<open>get_anomaly_score\<close> is the negated decision function of the scaled row; and, given
  scikit-learn's contract that \<open>predict\<close> is \<open>-1\<close> exactly where the decision function is
  negative, \<open>detect_anomalies\<close> flags a row exactly when its score is strictly positive.
\<close>

theorem anomaly_score_sign:
  fixes L :: "('s, 'f) sklearn"
  assumes contract: "\<And>f x. predict L f x = - 1 \<longleftrightarrow> decision_function L f x < 0"
  shows "get_anomaly_score L m X =
           map (\<lambda>x. - decision_function L (fitted m) (scaler_transform L (scaler_attr m) x)) X
       \<and> length (detect_anomalies L m X) = length X
       \<and> length (get_anomaly_score L m X) = length X
       \<and> (\<forall>i < length X. detect_anomalies L m X ! i \<longleftrightarrow> 0 < get_anomaly_score L m X ! i)"
  using contract
  by (simp add: detect_anomalies_def get_anomaly_score_def Let_def comp_def)

theorem anomaly_score_sign_witness:
  "(\<forall>f x. predict \<lparr>scaler_fit = (\<lambda>d. ()), scaler_transform = (\<lambda>s x. x),
                     forest_fit = (\<lambda>p d. ()),
                     predict = (\<lambda>f x. if sum_list x < 0 then - 1 else 1),
                     decision_function = (\<lambda>f x. sum_list x)\<rparr> f x = - 1
           \<longleftrightarrow> decision_function \<lparr>scaler_fit = (\<lambda>d. ()), scaler_transform = (\<lambda>s x. x),
                     forest_fit = (\<lambda>p d. ()),
                     predict = (\<lambda>f x. if sum_list x < 0 then - 1 else 1),
                     decision_function = (\<lambda>f x. sum_list x)\<rparr> f x < 0)
   \<and> detect_anomalies \<lparr>scaler_fit = (\<lambda>d. ()), scaler_transform = (\<lambda>s x. x),
                     forest_fit = (\<lambda>p d. ()),
                     predict = (\<lambda>f x. if sum_list x < 0 then - 1 else 1),
                     decision_function = (\<lambda>f x. sum_list x)\<rparr>
        \<lparr>params = \<lparr>n_estimators = 100, max_samples = Auto, contamination = 1 / 100,
                    random_state = 42\<rparr>, fitted = (), scaler_attr = ()\<rparr>
        [[1, - 3], [2, 5]] = [True, False]
   \<and> get_anomaly_score \<lparr>scaler_fit = (\<lambda>d. ()), scaler_transform = (\<lambda>s x. x),
                     forest_fit = (\<lambda>p d. ()),
                     predict = (\<lambda>f x. if sum_list x < 0 then - 1 else 1),
                     decision_function = (\<lambda>f x. sum_list x)\<rparr>
        \<lparr>params = \<lparr>n_estimators = 100, max_samples = Auto, contamination = 1 / 100,
                    random_state = 42\<rparr>, fitted = (), scaler_attr = ()\<rparr>
        [[1, - 3], [2, 5]] = [2, - 7]"
  using anomaly_score_sign[of "\<lparr>scaler_fit = (\<lambda>d. ()), scaler_transform = (\<lambda>s x. x),
                     forest_fit = (\<lambda>p d. ()),
                     predict = (\<lambda>f x. if sum_list x < 0 then - 1 else 1),
                     decision_function = (\<lambda>f x. sum_list x)\<rparr>"]
  by (simp add: detect_anomalies_def get_anomaly_score_def)

text \<open>
  C4. \<open>detect_anomalies\<close> returns one boolean per input row, in order: the i-th is
  true exactly when the model predicts \<open>-1\<close> for the i-th scaled row, so it is false when
  the model predicts \<open>1\<close>.
\<close>

theorem detect_anomalies_rows:
  fixes L :: "('s, 'f) sklearn"
  shows "length (detect_anomalies L m X) = length X
       \<and> (\<forall>i < length X.
            (detect_anomalies L m X ! i
               \<longleftrightarrow> predict L (fitted m) (scaler_transform L (scaler_attr m) (X ! i)) = - 1)
          \<and> (predict L (fitted m) (scaler_transform L (scaler_attr m) (X ! i)) = 1
               \<longrightarrow> \<not> detect_anomalies L m X ! i))"
  by (simp add: detect_anomalies_def Let_def)

theorem detect_anomalies_rows_witness:
  "detect_anomalies \<lparr>scaler_fit = (\<lambda>d. ()), scaler_transform = (\<lambda>s x. map (\<lambda>v. v - 1) x),
                     forest_fit = (\<lambda>p d. ()),
                     predict = (\<lambda>f x. if sum_list x < 0 then - 1 else 1),
                     decision_function = (\<lambda>f x. sum_list x)\<rparr>
        \<lparr>params = \<lparr>n_estimators = 100, max_samples = Auto, contamination = 1 / 100,
                    random_state = 42\<rparr>, fitted = (), scaler_attr = ()\<rparr>
        [[1, 2], [0, 0], [5, - 9]] = [False, True, True]"
  using detect_anomalies_rows[of "\<lparr>scaler_fit = (\<lambda>d. ()), scaler_transform = (\<lambda>s x. map (\<lambda>v. v - 1) x),
                     forest_fit = (\<lambda>p d. ()),
                     predict = (\<lambda>f x. if sum_list x < 0 then - 1 else 1),
                     decision_function = (\<lambda>f x. sum_list x)\<rparr>"
        "\<lparr>params = \<lparr>n_estimators = 100, max_samples = Auto, contamination = 1 / 100,
                    random_state = 42\<rparr>, fitted = (), scaler_attr = ()\<rparr>"
        "[[1, 2], [0, 0], [5, - 9]]"]
  by (simp add: detect_anomalies_def)

section \<open>The simulator (data_simulator.py)\<close>

text \<open>
  C9. Whatever the previous point and the random draws (the two uniform factors lying in
  the ranges they are drawn from), a point returned by \<open>get_live_data_point\<close> has a
  strictly positive current and \<open>power = current * voltage\<close>, also on the spike and drop
  branches, and a point is returned whenever the previous current is a number. Every row
  of \<open>simulate_energy_data\<close> with \<open>include_anomalies=False\<close> has \<open>current \<ge> 0.1\<close> and
  \<open>power = current * voltage\<close>, and there are \<open>n_points\<close> rows.
\<close>

theorem simulated_points_positive:
  assumes "5 / 2 \<le> uniform_spike D" and "uniform_spike D < 4"
    and "1 / 10 \<le> uniform_drop D" and "uniform_drop D < 2 / 5"
  shows "(\<forall>p. get_live_data_point now D last_point include_anomalies anomaly_probability = Inr p
            \<longrightarrow> 0 < pt_current p \<and> pt_power p = pt_current p * pt_voltage p)
       \<and> (\<forall>x. map_of last_point ''current'' = Some (Float x)
            \<longrightarrow> (\<exists>p. get_live_data_point now D last_point include_anomalies
                        anomaly_probability = Inr p))
       \<and> length (rows (simulate_energy_data now' D' n_points False)) = n_points
       \<and> (\<forall>d \<in> set (to_dict_records (simulate_energy_data now' D' n_points False)).
            \<exists>c v. map_of d ''current'' = Some (Float c) \<and> map_of d ''voltage'' = Some (Float v)
                 \<and> map_of d ''power'' = Some (Float (c * v)) \<and> 1 / 10 \<le> c)"
proof (intro conjI allI impI ballI)
  fix p assume "get_live_data_point now D last_point include_anomalies anomaly_probability = Inr p"
  from live_point_ok[OF this] assms
  show "0 < pt_current p" and "pt_power p = pt_current p * pt_voltage p" by simp_all
next
  fix x assume "map_of last_point ''current'' = Some (Float x)"
  then show "\<exists>p. get_live_data_point now D last_point include_anomalies anomaly_probability = Inr p"
    by (rule live_point_returns)
next
  show "length (rows (simulate_energy_data now' D' n_points False)) = n_points"
    by (simp add: simulate_energy_data_def simulate_rows_plain)
next
  fix d assume "d \<in> set (to_dict_records (simulate_energy_data now' D' n_points False))"
  from sim_record[OF this] obtain r where r: "r \<in> set (simulate_rows now' D' n_points False)"
    and d: "map_of d ''current'' = Some (Float (pt_current r))"
       "map_of d ''voltage'' = Some (Float (pt_voltage r))"
       "map_of d ''power'' = Some (Float (pt_power r))"
    by blast
  from r obtain i where "r = base_row (now' - timedelta_minutes (int n_points)) D' i"
    by (auto simp: simulate_rows_plain)
  with base_row_ok have "1 / 10 \<le> pt_current r" "pt_power r = pt_current r * pt_voltage r"
    by simp_all
  with d show "\<exists>c v. map_of d ''current'' = Some (Float c) \<and> map_of d ''voltage'' = Some (Float v)
                 \<and> map_of d ''power'' = Some (Float (c * v)) \<and> 1 / 10 \<le> c"
    by auto
qed

theorem simulated_points_positive_witness:
  "(5 / 2 \<le> uniform_spike \<lparr>normal_current = 0, normal_voltage = 0, random_random = 1 / 100,
                              random_choice = ''drop'', uniform_spike = 3, uniform_drop = 1 / 5\<rparr>
    \<and> uniform_drop \<lparr>normal_current = 0, normal_voltage = 0, random_random = 1 / 100,
                     random_choice = ''drop'', uniform_spike = 3, uniform_drop = 1 / 5\<rparr> < 2 / 5)
   \<and> (\<exists>p. get_live_data_point 0
              \<lparr>normal_current = 0, normal_voltage = 0, random_random = 1 / 100,
                random_choice = ''drop'', uniform_spike = 3, uniform_drop = 1 / 5\<rparr>
              [(''current'', Float 2)] True (1 / 50) = Inr p
          \<and> 0 < pt_current p \<and> pt_power p = pt_current p * pt_voltage p)"
proof -
  let ?D = "\<lparr>normal_current = 0, normal_voltage = 0, random_random = 1 / 100,
             random_choice = ''drop'', uniform_spike = 3, uniform_drop = 1 / 5\<rparr>"
  have h: "5 / 2 \<le> uniform_spike ?D" "uniform_spike ?D < 4"
    "1 / 10 \<le> uniform_drop ?D" "uniform_drop ?D < 2 / 5"
    by simp_all
  note t = simulated_points_positive[OF h, where now = 0 and last_point = "[(''current'', Float 2)]"
      and include_anomalies = True and anomaly_probability = "1 / 50"]
  from t have "\<exists>p. get_live_data_point 0 ?D [(''current'', Float 2)] True (1 / 50) = Inr p"
    by simp
  then obtain p where p: "get_live_data_point 0 ?D [(''current'', Float 2)] True (1 / 50) = Inr p" ..
  with t have "0 < pt_current p \<and> pt_power p = pt_current p * pt_voltage p" by blast
  with p h show ?thesis by blast
qed

section \<open>Alerts (app.py)\<close>

text \<open>
  C1. \<open>update_data\<close> returns \<open>True\<close> on the API path and \<open>False\<close> on the simulated
  path, and whenever it returns, one entry is appended to the alert history exactly when
  the threshold status of the reading is \<open>"High"\<close> or its anomaly flag is set (on the API
  path the truth value of the reading's \<open>is_anomaly\<close>, \<open>False\<close> when absent; on the
  simulated path the model's verdict on the new point), and nothing is appended
  otherwise. The entry's type is \<open>"Anomaly Detected"\<close> when the flag is set, also with a
  high status, and \<open>"Threshold Breach"\<close> otherwise; a \<open>"Moderate"\<close> status alone appends
  nothing. Both paths do return: the simulated one, taken when the API is down or has no
  reading, whenever the live data has a last row with a number as its current; the API one
  whenever the timestamps of the readings parse, the history is fetched, and the latest
  reading has a number as its current, a power and a timestamp that parses.
\<close>

theorem update_data_alerts:
  "(update_data L E A now1 now2 now3 D S = (Inr b, S') \<longrightarrow>
      (\<exists>status flag.
           (if b then
              \<exists>latest cur color.
                 client_latest_readings A = Inr latest \<and> latest \<noteq> []
               \<and> getkey (last latest) ''current'' = Inr cur
               \<and> check_threshold_breach_py cur (alert_threshold_low S) (alert_threshold_high S)
                    = Inr (status, color)
               \<and> flag = truthy (case map_of (last latest) ''is_anomaly'' of
                                  None \<Rightarrow> Bool False | Some v \<Rightarrow> v)
            else
              \<exists>p color.
                 get_live_data_point now1 D (last (to_dict_records (live_data S))) True 0.02 = Inr p
               \<and> check_threshold_breach (Finite (pt_current p)) (Finite (alert_threshold_low S))
                    (Finite (alert_threshold_high S)) = (status, color)
               \<and> flag = hd (detect_anomalies L (model S)
                              [[pt_current p, pt_voltage p, pt_power p]]))
         \<and> (if status = ''High'' \<or> flag then
               \<exists>e. alert_history S' = alert_history S @ [e]
                  \<and> map_of e ''type'' =
                      Some (Str (if flag then ''Anomaly Detected'' else ''Threshold Breach''))
                  \<and> map_of e ''status'' = Some (Str status)
             else alert_history S' = alert_history S)
         \<and> (status = ''Moderate'' \<and> \<not> flag \<longrightarrow> alert_history S' = alert_history S)))
   \<and> ((\<not> check_api_status A \<or> client_latest_readings A = Inr [])
        \<and> rows (live_data S) \<noteq> []
        \<and> map_of (last (to_dict_records (live_data S))) ''current'' = Some (Float x) \<longrightarrow>
      (\<exists>S''. update_data L E A now1 now2 now3 D S = (Inr False, S'')))
   \<and> (check_api_status A \<and> client_latest_readings A = Inr readings \<and> readings \<noteq> []
        \<and> parse_timestamps E (DataFrame_of readings) = Inr df
        \<and> client_historical_data A = Inr hist
        \<and> map_of (last readings) ''current'' = Some (Float y)
        \<and> map_of (last readings) ''timestamp'' = Some ts
        \<and> to_datetime_scalar E ts = Inr t
        \<and> map_of (last readings) ''power'' = Some pw \<longrightarrow>
      (\<exists>S''. update_data L E A now1 now2 now3 D S = (Inr True, S'')))"
proof (intro conjI impI)
  assume a: "update_data L E A now1 now2 now3 D S = (Inr b, S')"
  let ?goal = "\<exists>status flag.
           (if b then
              \<exists>latest cur color.
                 client_latest_readings A = Inr latest \<and> latest \<noteq> []
               \<and> getkey (last latest) ''current'' = Inr cur
               \<and> check_threshold_breach_py cur (alert_threshold_low S) (alert_threshold_high S)
                    = Inr (status, color)
               \<and> flag = truthy (case map_of (last latest) ''is_anomaly'' of
                                  None \<Rightarrow> Bool False | Some v \<Rightarrow> v)
            else
              \<exists>p color.
                 get_live_data_point now1 D (last (to_dict_records (live_data S))) True 0.02 = Inr p
               \<and> check_threshold_breach (Finite (pt_current p)) (Finite (alert_threshold_low S))
                    (Finite (alert_threshold_high S)) = (status, color)
               \<and> flag = hd (detect_anomalies L (model S)
                              [[pt_current p, pt_voltage p, pt_power p]]))
         \<and> (if status = ''High'' \<or> flag then
               \<exists>e. alert_history S' = alert_history S @ [e]
                  \<and> map_of e ''type'' =
                      Some (Str (if flag then ''Anomaly Detected'' else ''Threshold Breach''))
                  \<and> map_of e ''status'' = Some (Str status)
             else alert_history S' = alert_history S)
         \<and> (status = ''Moderate'' \<and> \<not> flag \<longrightarrow> alert_history S' = alert_history S)"
  from update_data_returns[OF a] show ?goal
  proof (elim disjE conjE exE)
    fix latest
    assume b: b and l: "client_latest_readings A = Inr latest" "latest \<noteq> []"
      and al: "api_alert E (last latest) (alert_threshold_low S) (alert_threshold_high S)
                 (alert_history S) = Inr (alert_history S')"
    from api_alert_cases[OF al] obtain cur status color where
      c: "getkey (last latest) ''current'' = Inr cur"
         "check_threshold_breach_py cur (alert_threshold_low S) (alert_threshold_high S)
            = Inr (status, color)"
      and r: "if status = ''High''
                 \<or> truthy (case map_of (last latest) ''is_anomaly'' of None \<Rightarrow> Bool False | Some v \<Rightarrow> v)
             then \<exists>e. alert_history S' = alert_history S @ [e]
                    \<and> map_of e ''type'' =
                        Some (Str (alert_type_of
                          (truthy (case map_of (last latest) ''is_anomaly'' of None \<Rightarrow> Bool False
                                   | Some v \<Rightarrow> v))))
                    \<and> map_of e ''status'' = Some (Str status)
             else alert_history S' = alert_history S"
      by blast
    show ?goal
      apply (rule exI[of _ status])
      apply (rule exI[of _ "truthy (case map_of (last latest) ''is_anomaly'' of None \<Rightarrow> Bool False | Some v \<Rightarrow> v)"])
      using b l c r by (auto simp: alert_type_of_def split: if_splits)
  next
    assume nb: "\<not> b" and f: "update_fallback L now1 now2 now3 D S = (Inr b, S')"
    from update_fallback_returns[OF f] obtain p where
      p: "get_live_data_point now1 D (last (to_dict_records (live_data S))) True 0.02 = Inr p"
      and h: "alert_history S' =
               fallback_alert L (model S) p now2 (alert_threshold_low S) (alert_threshold_high S)
                 (alert_history S)"
      by blast
    from fallback_alert_cases[of p "alert_threshold_low S" "alert_threshold_high S" L "model S"
        now2 "alert_history S"]
    obtain status color where
      c: "check_threshold_breach (Finite (pt_current p)) (Finite (alert_threshold_low S))
            (Finite (alert_threshold_high S)) = (status, color)"
      and r: "if status = ''High''
            \<or> hd (detect_anomalies L (model S) [[pt_current p, pt_voltage p, pt_power p]])
        then \<exists>e. fallback_alert L (model S) p now2 (alert_threshold_low S)
                    (alert_threshold_high S) (alert_history S) = alert_history S @ [e]
               \<and> map_of e ''type'' =
                   Some (Str (alert_type_of
                     (hd (detect_anomalies L (model S) [[pt_current p, pt_voltage p, pt_power p]]))))
               \<and> map_of e ''status'' = Some (Str status)
        else fallback_alert L (model S) p now2 (alert_threshold_low S)
                    (alert_threshold_high S) (alert_history S) = alert_history S"
      by blast
    show ?goal
      apply (rule exI[of _ status])
      apply (rule exI[of _ "hd (detect_anomalies L (model S) [[pt_current p, pt_voltage p, pt_power p]])"])
      using nb p c r h by (auto simp: alert_type_of_def split: if_splits)
  qed
next
  assume f: "(\<not> check_api_status A \<or> client_latest_readings A = Inr [])
        \<and> rows (live_data S) \<noteq> []
        \<and> map_of (last (to_dict_records (live_data S))) ''current'' = Some (Float x)"
  then have ne: "rows (live_data S) \<noteq> []"
    and cur: "map_of (last (to_dict_records (live_data S))) ''current'' = Some (Float x)"
    by simp_all
  from f have "update_data L E A now1 now2 now3 D S = update_fallback L now1 now2 now3 D S"
    unfolding update_data_def by auto
  with update_fallback_total[OF ne cur, of L now1 now2 now3 D]
  show "\<exists>S''. update_data L E A now1 now2 now3 D S = (Inr False, S'')"
    by simp
next
  assume g: "check_api_status A \<and> client_latest_readings A = Inr readings \<and> readings \<noteq> []
        \<and> parse_timestamps E (DataFrame_of readings) = Inr df
        \<and> client_historical_data A = Inr hist
        \<and> map_of (last readings) ''current'' = Some (Float y)
        \<and> map_of (last readings) ''timestamp'' = Some ts
        \<and> to_datetime_scalar E ts = Inr t
        \<and> map_of (last readings) ''power'' = Some pw"
  then have api: "check_api_status A"
    and l: "client_latest_readings A = Inr readings" "readings \<noteq> []"
    and df: "parse_timestamps E (DataFrame_of readings) = Inr df"
    and hist: "client_historical_data A = Inr hist"
    and cur: "map_of (last readings) ''current'' = Some (Float y)"
    and ts: "map_of (last readings) ''timestamp'' = Some ts"
    and t: "to_datetime_scalar E ts = Inr t"
    and pw: "map_of (last readings) ''power'' = Some pw"
    by simp_all
  from api_alert_total[OF cur ts t pw] obtain h' where
    al: "api_alert E (last readings) (alert_threshold_low S) (alert_threshold_high S)
           (alert_history S) = Inr h'"
    by blast
  from update_data_api_total[OF api l df hist al]
  show "\<exists>S''. update_data L E A now1 now2 now3 D S = (Inr True, S'')" .
qed

theorem update_data_alerts_witness:
  "let L = \<lparr>scaler_fit = (\<lambda>d. ()), scaler_transform = (\<lambda>s x. x), forest_fit = (\<lambda>p d. ()),
             predict = (\<lambda>f x. 1), decision_function = (\<lambda>f x. 1)\<rparr>;
       L2 = \<lparr>scaler_fit = (\<lambda>d. ()), scaler_transform = (\<lambda>s x. x), forest_fit = (\<lambda>p d. ()),
             predict = (\<lambda>f x. - 1), decision_function = (\<lambda>f x. - 1)\<rparr>;
       E = \<lparr>to_datetime = (\<lambda>col. Inr (map (\<lambda>v. 0) col)), to_datetime_scalar = (\<lambda>v. Inr 0),
             astype_str = (\<lambda>v. []), isoformat = (\<lambda>t. []), can_write = True\<rparr>;
       A = \<lparr>check_api_status = True,
             client_latest_readings =
               Inr [[(''timestamp'', Str ''t''), (''current'', Float 5), (''power'', Float 1100)]],
             client_historical_data = Inr \<lparr>columns = [], rows = []\<rparr>\<rparr>;
       A2 = \<lparr>check_api_status = False, client_latest_readings = Inr [],
              client_historical_data = Inr \<lparr>columns = [], rows = []\<rparr>\<rparr>;
       A3 = \<lparr>check_api_status = True,
              client_latest_readings =
                Inr [[(''timestamp'', Str ''t''), (''current'', Float 3), (''power'', Float 660)]],
              client_historical_data = Inr \<lparr>columns = [], rows = []\<rparr>\<rparr>;
       D = \<lparr>normal_current = 0, normal_voltage = 0, random_random = 1, random_choice = [],
             uniform_spike = 3, uniform_drop = 1 / 5\<rparr>;
       S = \<lparr>alert_threshold_low = 2, alert_threshold_high = 4,
             historical_data = \<lparr>columns = [], rows = []\<rparr>,
             live_data = \<lparr>columns = [''timestamp'', ''current'', ''voltage'', ''power''],
                          rows = [[Timestamp 0, Float 1, Float 220, Float 220]]\<rparr>,
             alert_history = [],
             model = \<lparr>params = \<lparr>n_estimators = 100, max_samples = Auto,
                                  contamination = 1 / 100, random_state = 42\<rparr>,
                      fitted = (), scaler_attr = ()\<rparr>\<rparr>;
       R = update_data L E A 0 0 0 D S;
       R2 = update_data L2 E A2 0 0 0 D S;
       R3 = update_data L E A3 0 0 0 D S;
       R4 = update_data L E A2 0 0 0 D (S\<lparr>alert_threshold_low := 0, alert_threshold_high := 1 / 20\<rparr>)
   in fst R = Inr True
      \<and> (\<exists>e. alert_history (snd R) = [e]
             \<and> map_of e ''type'' = Some (Str ''Threshold Breach'')
             \<and> map_of e ''status'' = Some (Str ''High''))
      \<and> fst R2 = Inr False
      \<and> (\<exists>e. alert_history (snd R2) = [e]
             \<and> map_of e ''type'' = Some (Str ''Anomaly Detected''))
      \<and> fst R3 = Inr True
      \<and> alert_history (snd R3) = []
      \<and> fst R4 = Inr False
      \<and> (\<exists>e. alert_history (snd R4) = [e]
             \<and> map_of e ''type'' = Some (Str ''Threshold Breach'')
             \<and> map_of e ''status'' = Some (Str ''High''))"
proof -
  let ?L = "\<lparr>scaler_fit = (\<lambda>d. ()), scaler_transform = (\<lambda>s x. x), forest_fit = (\<lambda>p d. ()),
             predict = (\<lambda>f x. 1), decision_function = (\<lambda>f x. 1)\<rparr> :: (unit, unit) sklearn"
  let ?L2 = "\<lparr>scaler_fit = (\<lambda>d. ()), scaler_transform = (\<lambda>s x. x), forest_fit = (\<lambda>p d. ()),
             predict = (\<lambda>f x. - 1), decision_function = (\<lambda>f x. - 1)\<rparr> :: (unit, unit) sklearn"
  let ?E = "\<lparr>to_datetime = (\<lambda>col. Inr (map (\<lambda>v. 0) col)), to_datetime_scalar = (\<lambda>v. Inr 0),
             astype_str = (\<lambda>v. []), isoformat = (\<lambda>t. []), can_write = True\<rparr>"
  let ?np = "[(''timestamp'', Str ''t''), (''current'', Float 5), (''power'', Float 1100)]"
  let ?np3 = "[(''timestamp'', Str ''t''), (''current'', Float 3), (''power'', Float 660)]"
  let ?A = "\<lparr>check_api_status = True, client_latest_readings = Inr [?np],
             client_historical_data = Inr \<lparr>columns = [], rows = []\<rparr>\<rparr>"
  let ?A2 = "\<lparr>check_api_status = False, client_latest_readings = Inr [],
              client_historical_data = Inr \<lparr>columns = [], rows = []\<rparr>\<rparr>"
  let ?A3 = "\<lparr>check_api_status = True, client_latest_readings = Inr [?np3],
             client_historical_data = Inr \<lparr>columns = [], rows = []\<rparr>\<rparr>"
  let ?D = "\<lparr>normal_current = 0, normal_voltage = 0, random_random = 1, random_choice = [],
             uniform_spike = 3, uniform_drop = 1 / 5\<rparr>"
  let ?S = "\<lparr>alert_threshold_low = 2, alert_threshold_high = 4,
             historical_data = \<lparr>columns = [], rows = []\<rparr>,
             live_data = \<lparr>columns = [''timestamp'', ''current'', ''voltage'', ''power''],
                          rows = [[Timestamp 0, Float 1, Float 220, Float 220]]\<rparr>,
             alert_history = [],
             model = \<lparr>params = \<lparr>n_estimators = 100, max_samples = Auto,
                                  contamination = 1 / 100, random_state = 42\<rparr>,
                      fitted = (), scaler_attr = ()\<rparr>\<rparr>"
  let ?R = "update_data ?L ?E ?A 0 0 0 ?D ?S"
  let ?R2 = "update_data ?L2 ?E ?A2 0 0 0 ?D ?S"
  let ?R3 = "update_data ?L ?E ?A3 0 0 0 ?D ?S"
  let ?R4 = "update_data ?L ?E ?A2 0 0 0 ?D
               (?S\<lparr>alert_threshold_low := 0, alert_threshold_high := 1 / 20\<rparr>)"
  note part1 = update_data_alerts[THEN conjunct1, rule_format]
  note part2 = update_data_alerts[THEN conjunct2, THEN conjunct1, rule_format]
  note part3 = update_data_alerts[THEN conjunct2, THEN conjunct2, rule_format]

  have pt: "parse_timestamps ?E (DataFrame_of [?np]) \<noteq> Inl e" for e
    by (simp add: parse_timestamps_def DataFrame_of_def keys_of_def add_key_def getitem_def
        setitem_def)
  then obtain df where df: "parse_timestamps ?E (DataFrame_of [?np]) = Inr df"
    by (cases "parse_timestamps ?E (DataFrame_of [?np])") auto
  have "\<exists>S''. ?R = (Inr True, S'')"
    by (rule part3[where readings = "[?np]" and df = df and y = 5 and ts = "Str ''t''"
          and t = 0 and pw = "Float 1100" and hist = "\<lparr>columns = [], rows = []\<rparr>"])
       (simp add: df)
  then obtain S1 where ev: "?R = (Inr True, S1)" by blast
  have r1: "\<exists>e. alert_history S1 = [e]
             \<and> map_of e ''type'' = Some (Str ''Threshold Breach'')
             \<and> map_of e ''status'' = Some (Str ''High'')"
    using part1[OF ev]
    by (auto simp: getkey_def check_threshold_breach_def float_ge_def split: if_splits)

  have pt3: "parse_timestamps ?E (DataFrame_of [?np3]) \<noteq> Inl e" for e
    by (simp add: parse_timestamps_def DataFrame_of_def keys_of_def add_key_def getitem_def
        setitem_def)
  then obtain df3 where df3: "parse_timestamps ?E (DataFrame_of [?np3]) = Inr df3"
    by (cases "parse_timestamps ?E (DataFrame_of [?np3])") auto
  have "\<exists>S''. ?R3 = (Inr True, S'')"
    by (rule part3[where readings = "[?np3]" and df = df3 and y = 3 and ts = "Str ''t''"
          and t = 0 and pw = "Float 660" and hist = "\<lparr>columns = [], rows = []\<rparr>"])
       (simp add: df3)
  then obtain S3 where ev3: "?R3 = (Inr True, S3)" by blast
  have r3: "alert_history S3 = []"
    using part1[OF ev3]
    by (auto simp: getkey_def check_threshold_breach_def float_ge_def split: if_splits)

  have "\<exists>S''. ?R2 = (Inr False, S'')"
    by (rule part2[where x = 1]) (simp add: to_dict_records_def)
  then obtain S2 where ev2: "?R2 = (Inr False, S2)" by blast
  have r2: "\<exists>e. alert_history S2 = [e]
             \<and> map_of e ''type'' = Some (Str ''Anomaly Detected'')"
    using part1[OF ev2]
    by (auto simp: detect_anomalies_def split: if_splits)

  have "\<exists>S''. ?R4 = (Inr False, S'')"
    by (rule part2[where x = 1]) (simp add: to_dict_records_def)
  then obtain S4 where ev4: "?R4 = (Inr False, S4)" by blast
  have mx: "1 \<le> max (1 / 10) c * 20" for c :: real
    by (auto simp: max_def)
  have r4: "\<exists>e. alert_history S4 = [e]
             \<and> map_of e ''type'' = Some (Str ''Threshold Breach'')
             \<and> map_of e ''status'' = Some (Str ''High'')"
    using part1[OF ev4]
    by (auto simp: detect_anomalies_def get_live_data_point_def Let_def to_dict_records_def
        check_threshold_breach_def float_ge_def mx split: if_splits)

  from ev r1 ev2 r2 ev3 r3 ev4 r4 show ?thesis
    unfolding Let_def by simp
qed

section \<open>Loading and saving (utils.py)\<close>



section \<open>The periodic save (api_server.py)\<close>

text \<open>
  C7. The periodic save of \<open>add_reading\<close> is claimed to rewrite the history file as the
  records persisted before, unchanged and in order, followed by the new reading. It
  treats the \<open>None\<close> of \<open>load_data\<close> as "no existing data", but \<open>load_data\<close> also returns
  \<open>None\<close> when the file exists and reading it raises. A reading posted with the timestamp
  \<open>garbage\<close> is saved as it is; at the next save \<open>pd.to_datetime\<close> raises on it, and the
  file is rewritten with the new reading alone: the record persisted before is gone.
\<close>

theorem add_reading_save_drops_history:
  "let E = \<lparr>to_datetime = (\<lambda>col. if Str ''garbage'' \<in> set col then Inl ValueError
                                  else Inr (map (\<lambda>v. 0) col)),
             to_datetime_scalar = (\<lambda>v. Inr 0),
             astype_str = (\<lambda>v. case v of Str s \<Rightarrow> s | _ \<Rightarrow> []),
             isoformat = (\<lambda>t. ''2025-01-01T00:05:00''), can_write = True\<rparr>;
       L = \<lparr>scaler_fit = (\<lambda>d. ()), scaler_transform = (\<lambda>s x. x), forest_fit = (\<lambda>p d. ()),
             predict = (\<lambda>f x. 1), decision_function = (\<lambda>f x. 1)\<rparr>;
       st0 = \<lparr>latest_readings = [], anomaly_model = None, data_file = NoFile, stdout = []\<rparr>;
       st1 = snd (add_reading L E 0
                    \<lparr>current = 1, voltage = 220, power = None, device_id = ''ESP32_001'',
                      timestamp = Some ''garbage''\<rparr> st0);
       st2 = snd (add_reading L E 300000000
                    \<lparr>current = 2, voltage = 220, power = None, device_id = ''ESP32_001'',
                      timestamp = None\<rparr> st1)
   in data_file st1 =
        Json [[(''current'', Float 1), (''voltage'', Float 220), (''power'', Float 220),
               (''device_id'', Str ''ESP32_001''), (''timestamp'', Str ''garbage'')]]
    \<and> data_file st2 =
        Json [[(''current'', Float 2), (''voltage'', Float 220), (''power'', Float 440),
               (''device_id'', Str ''ESP32_001''), (''timestamp'', Str ''2025-01-01T00:05:00'')]]
    \<and> stdout st2 = [Saved_data_points 1, Error_loading_data ValueError, Saved_data_points 1]"
proof -
  let ?E = "\<lparr>to_datetime = (\<lambda>col. if Str ''garbage'' \<in> set col then Inl ValueError
                                  else Inr (map (\<lambda>v. 0) col)),
             to_datetime_scalar = (\<lambda>v. Inr 0),
             astype_str = (\<lambda>v. case v of Str s \<Rightarrow> s | _ \<Rightarrow> []),
             isoformat = (\<lambda>t. ''2025-01-01T00:05:00''), can_write = True\<rparr>"
  let ?L = "\<lparr>scaler_fit = (\<lambda>d. ()), scaler_transform = (\<lambda>s x. x), forest_fit = (\<lambda>p d. ()),
             predict = (\<lambda>f x. 1), decision_function = (\<lambda>f x. 1)\<rparr> :: (unit, unit) sklearn"
  let ?r1 = "[(''current'', Float 1), (''voltage'', Float 220), (''power'', Float 220),
               (''device_id'', Str ''ESP32_001''), (''timestamp'', Str ''garbage'')]"
  let ?r2 = "[(''current'', Float 2), (''voltage'', Float 220), (''power'', Float 440),
               (''device_id'', Str ''ESP32_001''), (''timestamp'', Str ''2025-01-01T00:05:00'')]"
  let ?st0 = "\<lparr>latest_readings = [], anomaly_model = None, data_file = NoFile, stdout = []\<rparr>
                :: (unit, unit) server"
  have ks: "keys_of [?r1] = [''current'', ''voltage'', ''power'', ''device_id'', ''timestamp'']"
    "keys_of [?r2] = [''current'', ''voltage'', ''power'', ''device_id'', ''timestamp'']"
    by (simp_all add: keys_of_def add_key_def)
  have df1: "DataFrame_of [?r1] = \<lparr>columns = [''current'', ''voltage'', ''power'', ''device_id'', ''timestamp''],
        rows = [[Float 1, Float 220, Float 220, Str ''ESP32_001'', Str ''garbage'']]\<rparr>"
    by (simp add: DataFrame_of_def ks reindex_def cell_def)
  have df2: "DataFrame_of [?r2] = \<lparr>columns = [''current'', ''voltage'', ''power'', ''device_id'', ''timestamp''],
        rows = [[Float 2, Float 220, Float 440, Str ''ESP32_001'', Str ''2025-01-01T00:05:00'']]\<rparr>"
    by (simp add: DataFrame_of_def ks reindex_def cell_def)
  have sv1: "save_data ?E (DataFrame_of [?r1]) NoFile = (Inr (), [], Json [?r1])"
    by (simp add: df1 save_data_def save_data_try_def getitem_def setitem_def add_key_def
        reindex_def cell_def to_dict_records_def)
  have sv2: "save_data ?E (DataFrame_of [?r2]) (Json [?r1]) = (Inr (), [], Json [?r2])"
    by (simp add: df2 save_data_def save_data_try_def getitem_def setitem_def add_key_def
        reindex_def cell_def to_dict_records_def)
  have ld1: "load_data ?E NoFile = (Inr None, [])"
    by (simp add: load_data_def load_data_try_def)
  have ld2: "load_data ?E (Json [?r1]) = (Inr None, [Error_loading_data ValueError])"
    by (simp add: load_data_def load_data_try_def parse_timestamps_def df1 getitem_def cell_def)
  have sb1: "save_branch ?E ?r1 NoFile = (Inr (), [Saved_data_points 1], Json [?r1])"
    by (simp add: save_branch_def ld1 sv1) (simp add: df_len_def df1)
  have sb2: "save_branch ?E ?r2 (Json [?r1])
      = (Inr (), [Error_loading_data ValueError, Saved_data_points 1], Json [?r2])"
    by (simp add: save_branch_def ld2 sv2) (simp add: df_len_def df2)
  have t0: "dt_minute 0 mod 5 = 0 \<and> dt_second 0 < 10"
    by (simp add: dt_minute_def dt_second_def)
  have t1: "dt_minute 300000000 mod 5 = 0 \<and> dt_second 300000000 < 10"
    by (simp add: dt_minute_def dt_second_def)
  have a1: "snd (add_reading ?L ?E 0
                    \<lparr>current = 1, voltage = 220, power = None, device_id = ''ESP32_001'',
                      timestamp = Some ''garbage''\<rparr> ?st0)
      = \<lparr>latest_readings = [?r1], anomaly_model = None, data_file = Json [?r1],
         stdout = [Saved_data_points 1]\<rparr>"
    by (simp add: add_reading_def score_reading_def new_reading_dict_def t0 sb1 push_latest_def
        MAX_LATEST_READINGS_def)
  have a2: "snd (add_reading ?L ?E 300000000
                    \<lparr>current = 2, voltage = 220, power = None, device_id = ''ESP32_001'',
                      timestamp = None\<rparr>
                    \<lparr>latest_readings = [?r1], anomaly_model = None, data_file = Json [?r1],
                      stdout = [Saved_data_points 1]\<rparr>)
      = \<lparr>latest_readings = [?r1, ?r2], anomaly_model = None, data_file = Json [?r2],
         stdout = [Saved_data_points 1, Error_loading_data ValueError, Saved_data_points 1]\<rparr>"
    by (simp add: add_reading_def score_reading_def new_reading_dict_def t1 sb2 push_latest_def
        MAX_LATEST_READINGS_def)
  show ?thesis unfolding Let_def a1 a2 by simp
qed

end
